theory Spec2Isabelle
  imports Complex_Main "HOL-Library.Sublist"
begin

section \<open>Values, errors and validator options (src/types.ts)\<close>

text \<open>
  JavaScript strings are modelled as HOL strings of ASCII characters, so case
  mapping and white space are the ASCII ones. A finite JavaScript number is modelled
  by its exact rational value; \<open>NaN\<close>, the infinities and the rounding of IEEE doubles are
  not represented. The value \<open>undefined\<close> is \<open>None\<close> of an option type.
\<close>

datatype jsvalue =
    JNull
  | JBoolean bool
  | JNumber rat
  | JString string
  | JArray "jsvalue list"
  | JObject "(string \<times> jsvalue) list"

text \<open>
  The raw environment \<open>Record<string, string | undefined>\<close>: the list of the object's own
  entries in the order \<open>Object.keys\<close> yields them. \<open>env[key]\<close> is \<open>env_get\<close>, which reads
  own entries: it stands for \<open>env[key]\<close> at every name that is not a member of
  \<open>Object.prototype\<close>, where a plain object would yield the inherited member.
\<close>

type_synonym raw_env = "(string \<times> string option) list"

definition env_get :: "raw_env \<Rightarrow> string \<Rightarrow> string option" where
  "env_get env key = (case map_of env key of Some v \<Rightarrow> v | None \<Rightarrow> None)"

text \<open>
  Everything a \<open>parse\<close> can throw. The first three are the classes of src/types.ts, all
  of them instances of \<open>EnvError\<close>; \<open>Error\<close> stands for any other exception, carrying its
  message.
\<close>

datatype thrown =
    EnvError string string "string option"
  | EnvMissingError string
  | EnvValidationError string string "string option"
  | Error string

fun is_EnvError :: "thrown \<Rightarrow> bool" where
  "is_EnvError (Error m) = False"
| "is_EnvError e = True"

fun error_message :: "thrown \<Rightarrow> string" where
  "error_message (EnvError message key v) = message"
| "error_message (EnvMissingError key) = ''Missing required environment variable: '' @ key"
| "error_message (EnvValidationError key message v) =
     ''Invalid value for '' @ key @ '': '' @ message"
| "error_message (Error m) = m"

fun error_value :: "thrown \<Rightarrow> string option" where
  "error_value (EnvError message key v) = v"
| "error_value (EnvMissingError key) = None"
| "error_value (EnvValidationError key message v) = v"
| "error_value (Error m) = None"

datatype validator_type =
    T_string | T_number | T_boolean | T_email | T_url | T_host | T_port
  | T_json | T_array | T_uuid | T_regex | T_enum | T_duration | T_bytes

text \<open>
  \<open>ValidatorOptions<T>\<close>. An absent option is \<open>None\<close>; the two flags \<open>secret\<close> and
  \<open>warnOnly\<close> are only ever tested with \<open>=== true\<close>, so absent and \<open>false\<close> are both
  \<open>False\<close>. The documentation fields \<open>desc\<close>, \<open>example\<close> and \<open>docs\<close> are never read by
  the code modelled here and are left out. \<open>requiredWhen\<close> receives the result object
  built so far, a \<open>Record<string, unknown>\<close>: a key maps to \<open>Some None\<close> when it is
  present with the value \<open>undefined\<close>.
\<close>

record 'v validator_options =
  default_opt :: "'v option"
  devDefault :: "'v option"
  testDefault :: "'v option"
  choices :: "'v list option"
  secret :: bool
  deprecated :: "string option"
  requiredWhen :: "((string \<rightharpoonup> jsvalue option) \<Rightarrow> bool) option"
  warnOnly :: bool

record 'v validator =
  v_type :: validator_type
  v_options :: "'v validator_options"
  parse :: "string option \<Rightarrow> string \<Rightarrow> raw_env \<Rightarrow> thrown + 'v"

section \<open>The validator factory (src/validators.ts)\<close>

text \<open>
  \<open>createValidator\<close> accepts any extension of the common options and stores it as
  \<open>ValidatorOptions<T>\<close>: through a \<open>Validator\<close> only the common fields can be read, which
  is what \<open>truncate\<close> keeps.
\<close>

definition createValidator ::
  "validator_type \<Rightarrow> ('v, 'm) validator_options_scheme \<Rightarrow>
   (string \<Rightarrow> string \<Rightarrow> raw_env \<Rightarrow> thrown + 'v) \<Rightarrow> 'v validator" where
  "createValidator ty options parser =
     \<lparr> v_type = ty,
       v_options = validator_options.truncate options,
       parse = (\<lambda>value key env.
         if value = None \<or> value = Some [] then
           (let nodeEnv = (case env_get env ''NODE_ENV'' of Some s \<Rightarrow> s | None \<Rightarrow> ''development'') in
            if testDefault options \<noteq> None \<and> nodeEnv = ''test'' then Inr (the (testDefault options))
            else if devDefault options \<noteq> None \<and> nodeEnv \<noteq> ''production''
              then Inr (the (devDefault options))
            else if default_opt options \<noteq> None then Inr (the (default_opt options))
            else Inl (EnvMissingError key))
         else parser (the value) key env) \<rparr>"

section \<open>String helpers\<close>

definition is_space :: "char \<Rightarrow> bool" where
  "is_space c = (c \<in> {CHR 0x09, CHR 0x0A, CHR 0x0B, CHR 0x0C, CHR 0x0D, CHR '' ''})"

definition is_digit :: "char \<Rightarrow> bool" where
  "is_digit c = (c \<in> set ''0123456789'')"

definition toLowerCase_char :: "char \<Rightarrow> char" where
  "toLowerCase_char c =
     (case map_of (zip ''ABCDEFGHIJKLMNOPQRSTUVWXYZ'' ''abcdefghijklmnopqrstuvwxyz'') c of
        Some l \<Rightarrow> l | None \<Rightarrow> c)"

definition toUpperCase_char :: "char \<Rightarrow> char" where
  "toUpperCase_char c =
     (case map_of (zip ''abcdefghijklmnopqrstuvwxyz'' ''ABCDEFGHIJKLMNOPQRSTUVWXYZ'') c of
        Some u \<Rightarrow> u | None \<Rightarrow> c)"

definition String_toLowerCase :: "string \<Rightarrow> string" where
  "String_toLowerCase s = map toLowerCase_char s"

definition String_toUpperCase :: "string \<Rightarrow> string" where
  "String_toUpperCase s = map toUpperCase_char s"

definition String_trim :: "string \<Rightarrow> string" where
  "String_trim s = rev (dropWhile is_space (rev (dropWhile is_space s)))"

text \<open>\<open>xs.join(', ')\<close>, given the conversion of an element to text.\<close>

fun join :: "('a \<Rightarrow> string) \<Rightarrow> 'a list \<Rightarrow> string" where
  "join f [] = []"
| "join f [x] = f x"
| "join f (x # y # ys) = f x @ '', '' @ join f (y # ys)"

definition digit_char :: "nat \<Rightarrow> char" where
  "digit_char d = ''0123456789'' ! d"

text \<open>The decimal text of a natural number, as a template literal prints a length bound.\<close>

function show_nat :: "nat \<Rightarrow> string" where
  "show_nat n = (if n < 10 then [digit_char n] else show_nat (n div 10) @ [digit_char (n mod 10)])"
  by pat_completeness auto
termination
  by (relation "measure id") auto

definition digit_value :: "char \<Rightarrow> nat" where
  "digit_value c = (case map_of (zip ''0123456789'' [0, 1, 2, 3, 4, 5, 6, 7, 8, 9]) c of
     Some d \<Rightarrow> d | None \<Rightarrow> 0)"

definition digits_value :: "string \<Rightarrow> nat" where
  "digits_value ds = foldl (\<lambda>acc c. 10 * acc + digit_value c) 0 ds"

text \<open>
  \<open>parseFloat\<close> on the text the first capture group of the two unit grammars can hold:
  digits, optionally followed by a point and more digits.
\<close>

definition parseFloat :: "string \<Rightarrow> rat" where
  "parseFloat s =
     (let ip = takeWhile is_digit s; r = dropWhile is_digit s
      in case r of
           [] \<Rightarrow> of_nat (digits_value ip)
         | c # fp \<Rightarrow> of_nat (digits_value ip) + of_nat (digits_value fp) / 10 ^ length fp)"

text \<open>
  A caller-supplied \<open>RegExp\<close>: its source text (what \<open>toString()\<close> prints) and its \<open>test\<close>
  as a predicate on strings.
\<close>

record regexp =
  rx_toString :: string
  rx_test :: "string \<Rightarrow> bool"

section \<open>The catalogue (src/validators.ts)\<close>

text \<open>
  Of the fourteen validators, \<open>str\<close>, \<open>bool\<close>, \<open>json\<close>, \<open>uuid\<close>, \<open>regex\<close>, \<open>enumValidator\<close>,
  \<open>duration\<close> and \<open>bytes\<close> are modelled, and with them \<open>makeValidator\<close>.
  Where a message prints values with \<open>join\<close>, the platform's conversion of a value to
  text is the parameter \<open>show\<close>; for strings it is the identity.
\<close>

record string_validator_options = "string validator_options" +
  minLength :: "nat option"
  maxLength :: "nat option"
  pattern :: "regexp option"
  trim :: bool
  toLowerCase :: bool
  toUpperCase :: bool

definition str :: "string_validator_options \<Rightarrow> string validator" where
  "str options = createValidator T_string options (\<lambda>value key env.
     let result = value;
         result = (if trim options then String_trim result else result);
         result = (if toLowerCase options then String_toLowerCase result else result);
         result = (if toUpperCase options then String_toUpperCase result else result)
     in if minLength options \<noteq> None \<and> length result < the (minLength options) then
          Inl (EnvValidationError key
            (''must be at least '' @ show_nat (the (minLength options)) @ '' characters'') (Some value))
        else if maxLength options \<noteq> None \<and> length result > the (maxLength options) then
          Inl (EnvValidationError key
            (''must be at most '' @ show_nat (the (maxLength options)) @ '' characters'') (Some value))
        else if pattern options \<noteq> None \<and> \<not> rx_test (the (pattern options)) result then
          Inl (EnvValidationError key
            (''must match pattern '' @ rx_toString (the (pattern options))) (Some value))
        else if choices options \<noteq> None \<and> result \<notin> set (the (choices options)) then
          Inl (EnvValidationError key
            (''must be one of: '' @ join id (the (choices options))) (Some value))
        else Inr result)"

definition trueValues :: "string list" where
  "trueValues = [''1'', ''true'', ''t'', ''yes'', ''y'', ''on'']"

definition falseValues :: "string list" where
  "falseValues = [''0'', ''false'', ''f'', ''no'', ''n'', ''off'']"

definition bool :: "bool validator_options \<Rightarrow> bool validator" where
  "bool options = createValidator T_boolean options (\<lambda>value key env.
     let lower = String_toLowerCase value
     in if lower \<in> set trueValues then Inr True
        else if lower \<in> set falseValues then Inr False
        else Inl (EnvValidationError key
          ''must be a boolean value (1, 0, true, false, yes, no, on, off)'' (Some value)))"

text \<open>
  \<open>json\<close>: \<open>JSON.parse\<close> is the platform's and is the parameter \<open>JSON_parse\<close>, \<open>None\<close> when
  it throws. The \<open>schema\<close> option is a predicate on the parsed value.
\<close>

record json_validator_options = "jsvalue validator_options" +
  schema :: "(jsvalue \<Rightarrow> bool) option"

definition json :: "(string \<Rightarrow> jsvalue option) \<Rightarrow> json_validator_options \<Rightarrow> jsvalue validator" where
  "json JSON_parse options = createValidator T_json options (\<lambda>value key env.
     case JSON_parse value of
       None \<Rightarrow> Inl (EnvValidationError key ''must be valid JSON'' (Some value))
     | Some parsed \<Rightarrow>
         if schema options \<noteq> None \<and> \<not> the (schema options) parsed then
           Inl (EnvValidationError key ''does not match expected schema'' (Some value))
         else Inr parsed)"

text \<open>
  \<open>UUID_REGEX\<close> has a fixed length, so its \<open>test\<close> is a position-wise check against the
  character classes of the pattern; the flag \<open>i\<close> adds the upper-case hexadecimal letters.
\<close>

definition hex_class :: string where
  "hex_class = ''0123456789abcdefABCDEF''"

definition UUID_REGEX :: "string list" where
  "UUID_REGEX =
     replicate 8 hex_class @ [''-''] @ replicate 4 hex_class @ [''-''] @
     [''12345''] @ replicate 3 hex_class @ [''-''] @
     [''89abAB''] @ replicate 3 hex_class @ [''-''] @ replicate 12 hex_class"

definition UUID_REGEX_test :: "string \<Rightarrow> bool" where
  "UUID_REGEX_test s = list_all2 (\<lambda>cls c. c \<in> set cls) UUID_REGEX s"

definition uuid :: "string validator_options \<Rightarrow> string validator" where
  "uuid options = createValidator T_uuid options (\<lambda>value key env.
     if \<not> UUID_REGEX_test value then
       Inl (EnvValidationError key ''must be a valid UUID'' (Some value))
     else if choices options \<noteq> None \<and> value \<notin> set (the (choices options)) then
       Inl (EnvValidationError key
         (''must be one of: '' @ join id (the (choices options))) (Some value))
     else Inr (String_toLowerCase value))"

record regex_validator_options = "string validator_options" +
  rx_pattern :: regexp

definition regex :: "regex_validator_options \<Rightarrow> string validator" where
  "regex options = createValidator T_regex options (\<lambda>value key env.
     if \<not> rx_test (rx_pattern options) value then
       Inl (EnvValidationError key
         (''must match pattern '' @ rx_toString (rx_pattern options)) (Some value))
     else if choices options \<noteq> None \<and> value \<notin> set (the (choices options)) then
       Inl (EnvValidationError key
         (''must be one of: '' @ join id (the (choices options))) (Some value))
     else Inr value)"

record enum_validator_options = "string validator_options" +
  enum_values :: "string list"

definition enumValidator :: "enum_validator_options \<Rightarrow> string validator" where
  "enumValidator options = createValidator T_enum options (\<lambda>value key env.
     if value \<notin> set (enum_values options) then
       Inl (EnvValidationError key
         (''must be one of: '' @ join id (enum_values options)) (Some value))
     else Inr value)"

text \<open>
  \<open>DURATION_REGEX\<close> and \<open>BYTES_REGEX\<close> have the same shape,
  \<open>/^(\d+(?:\.\d+)?)\s*(u1|u2|...)?$/i\<close>. Because the match is anchored at both ends,
  \<open>exec\<close> is a left-to-right scan: a non-empty run of digits, a fraction when a point
  and a digit follow, white space, and the rest of the text, which is empty or one of
  the units in any letter case. The result holds the two capture groups.
\<close>

definition number_unit_exec :: "string list \<Rightarrow> string \<Rightarrow> (string \<times> string option) option" where
  "number_unit_exec units s =
     (let ds = takeWhile is_digit s; r1 = dropWhile is_digit s
      in if ds = [] then None
         else
           let (num, r2) =
                 (case r1 of
                    [] \<Rightarrow> (ds, r1)
                  | c # t \<Rightarrow>
                      if c = CHR ''.'' \<and> takeWhile is_digit t \<noteq> []
                      then (ds @ [c] @ takeWhile is_digit t, dropWhile is_digit t)
                      else (ds, r1));
               r3 = dropWhile is_space r2
           in if r3 = [] then Some (num, None)
              else if String_toLowerCase r3 \<in> set units then Some (num, Some r3)
              else None)"

text \<open>
  The unit tables are \<open>Record<string, number>\<close>. Every lookup the code makes is for a key
  of the table (a unit the grammar matched, or a unit of the option's type), so the
  branch for a missing key is never taken.
\<close>

definition unit_factor :: "(string \<times> rat) list \<Rightarrow> string \<Rightarrow> rat" where
  "unit_factor table u = (case map_of table u of Some f \<Rightarrow> f | None \<Rightarrow> 0)"

definition DURATION_UNITS :: "(string \<times> rat) list" where
  "DURATION_UNITS =
     [(''ms'', 1), (''s'', 1000), (''m'', 60 * 1000), (''h'', 60 * 60 * 1000),
      (''d'', 24 * 60 * 60 * 1000)]"

definition DURATION_REGEX_exec :: "string \<Rightarrow> (string \<times> string option) option" where
  "DURATION_REGEX_exec = number_unit_exec [''ms'', ''s'', ''m'', ''h'', ''d'']"

datatype duration_unit = D_ms | D_s | D_m | D_h | D_d

fun duration_unit_text :: "duration_unit \<Rightarrow> string" where
  "duration_unit_text D_ms = ''ms''"
| "duration_unit_text D_s = ''s''"
| "duration_unit_text D_m = ''m''"
| "duration_unit_text D_h = ''h''"
| "duration_unit_text D_d = ''d''"

record duration_validator_options = "rat validator_options" +
  d_unit :: "duration_unit option"

definition duration :: "(rat \<Rightarrow> string) \<Rightarrow> duration_validator_options \<Rightarrow> rat validator" where
  "duration show options =
     (let outputUnit = (case d_unit options of Some u \<Rightarrow> duration_unit_text u | None \<Rightarrow> ''ms'')
      in createValidator T_duration options (\<lambda>value key env.
           case DURATION_REGEX_exec value of
             None \<Rightarrow> Inl (EnvValidationError key
               ''must be a valid duration (e.g., 100ms, 5s, 2m, 1h, 7d)'' (Some value))
           | Some (g1, g2) \<Rightarrow>
               let amount = parseFloat g1;
                   unit = String_toLowerCase (case g2 of Some u \<Rightarrow> u | None \<Rightarrow> ''ms'');
                   msValue = amount * unit_factor DURATION_UNITS unit;
                   result = msValue / unit_factor DURATION_UNITS outputUnit
               in if choices options \<noteq> None \<and> result \<notin> set (the (choices options)) then
                    Inl (EnvValidationError key
                      (''must be one of: '' @ join show (the (choices options))) (Some value))
                  else Inr result))"

definition BYTES_UNITS :: "(string \<times> rat) list" where
  "BYTES_UNITS =
     [(''b'', 1), (''kb'', 1024), (''mb'', 1024 * 1024), (''gb'', 1024 * 1024 * 1024),
      (''tb'', 1024 * 1024 * 1024 * 1024)]"

definition BYTES_REGEX_exec :: "string \<Rightarrow> (string \<times> string option) option" where
  "BYTES_REGEX_exec = number_unit_exec [''b'', ''kb'', ''mb'', ''gb'', ''tb'']"

datatype bytes_unit = B_B | B_KB | B_MB | B_GB | B_TB

fun bytes_unit_text :: "bytes_unit \<Rightarrow> string" where
  "bytes_unit_text B_B = ''B''"
| "bytes_unit_text B_KB = ''KB''"
| "bytes_unit_text B_MB = ''MB''"
| "bytes_unit_text B_GB = ''GB''"
| "bytes_unit_text B_TB = ''TB''"

record bytes_validator_options = "rat validator_options" +
  b_unit :: "bytes_unit option"

definition bytes :: "(rat \<Rightarrow> string) \<Rightarrow> bytes_validator_options \<Rightarrow> rat validator" where
  "bytes show options =
     (let outputUnit =
            String_toLowerCase (case b_unit options of Some u \<Rightarrow> bytes_unit_text u | None \<Rightarrow> ''B'')
      in createValidator T_bytes options (\<lambda>value key env.
           case BYTES_REGEX_exec value of
             None \<Rightarrow> Inl (EnvValidationError key
               ''must be a valid byte size (e.g., 100B, 5KB, 2MB, 1GB)'' (Some value))
           | Some (g1, g2) \<Rightarrow>
               let amount = parseFloat g1;
                   unit = String_toLowerCase (case g2 of Some u \<Rightarrow> u | None \<Rightarrow> ''b'');
                   byteValue = amount * unit_factor BYTES_UNITS unit;
                   result = byteValue / unit_factor BYTES_UNITS outputUnit
               in if choices options \<noteq> None \<and> result \<notin> set (the (choices options)) then
                    Inl (EnvValidationError key
                      (''must be one of: '' @ join show (the (choices options))) (Some value))
                  else Inr result))"

text \<open>\<open>makeValidator\<close>: the caller's parser may throw anything, so it returns a sum.\<close>

definition makeValidator ::
  "('v \<Rightarrow> string) \<Rightarrow> (string \<Rightarrow> string \<Rightarrow> thrown + 'v) \<Rightarrow> validator_type \<Rightarrow>
   'v validator_options \<Rightarrow> 'v validator" where
  "makeValidator show parser ty options = createValidator ty options (\<lambda>value key env.
     case parser value key of
       Inl e \<Rightarrow> Inl e
     | Inr result \<Rightarrow>
         if choices options \<noteq> None \<and> result \<notin> set (the (choices options)) then
           Inl (EnvValidationError key
             (''must be one of: '' @ join show (the (choices options))) (Some value))
         else Inr result)"

text \<open>
  A specification holds validators of different output types as \<open>Validator<unknown>\<close>.
  \<open>as_unknown\<close> is that change of static type: it injects the typed values into
  \<open>jsvalue\<close> and changes nothing else.
\<close>

definition map_validator_options :: "('a \<Rightarrow> 'b) \<Rightarrow> 'a validator_options \<Rightarrow> 'b validator_options" where
  "map_validator_options f options =
     \<lparr> default_opt = map_option f (default_opt options),
       devDefault = map_option f (devDefault options),
       testDefault = map_option f (testDefault options),
       choices = map_option (map f) (choices options),
       secret = secret options,
       deprecated = deprecated options,
       requiredWhen = requiredWhen options,
       warnOnly = warnOnly options \<rparr>"

definition as_unknown :: "('a \<Rightarrow> jsvalue) \<Rightarrow> 'a validator \<Rightarrow> jsvalue validator" where
  "as_unknown f v =
     \<lparr> v_type = v_type v,
       v_options = map_validator_options f (v_options v),
       parse = (\<lambda>value key env. map_sum id f (parse v value key env)) \<rparr>"

section \<open>Utilities (src/utils.ts)\<close>

definition maskSecret :: "string option \<Rightarrow> nat \<Rightarrow> string" where
  "maskSecret value visibleChars =
     (case value of
        None \<Rightarrow> ''[undefined]''
      | Some s \<Rightarrow>
          if length s \<le> visibleChars * 2 then replicate (length s) (CHR ''*'')
          else
            let start = take visibleChars s;
                end' = drop (length s - visibleChars) s;
                masked = replicate (min (length s - visibleChars * 2) 10) (CHR ''*'')
            in start @ masked @ end')"

definition getNodeEnv :: "raw_env \<Rightarrow> string" where
  "getNodeEnv env = (case env_get env ''NODE_ENV'' of Some s \<Rightarrow> s | None \<Rightarrow> ''development'')"

definition isProduction :: "raw_env \<Rightarrow> bool" where
  "isProduction env = (getNodeEnv env = ''production'')"

definition isDevelopment :: "raw_env \<Rightarrow> bool" where
  "isDevelopment env = (getNodeEnv env = ''development'')"

definition isTest :: "raw_env \<Rightarrow> bool" where
  "isTest env = (getNodeEnv env = ''test'')"

section \<open>The aggregate pass (src/envguard.ts)\<close>

record validation_error =
  ve_key :: string
  ve_message :: string
  ve_value :: "string option"
  ve_isWarning :: bool

text \<open>
  The three locals the pass mutates. In \<open>st_result\<close> a key maps to \<open>Some None\<close> when the
  property exists with the value \<open>undefined\<close>, and to \<open>None\<close> when it was never assigned.
\<close>

record pass_state =
  st_errors :: "validation_error list"
  st_warnings :: "validation_error list"
  st_result :: "string \<rightharpoonup> jsvalue option"

text \<open>
  A specification is the list \<open>Object.entries(spec)\<close>: field names are pairwise distinct
  and are ordinary names, not members of \<open>Object.prototype\<close>.
\<close>

type_synonym validator_spec = "(string \<times> jsvalue validator) list"

text \<open>The body of the loop over the fields (lines 53 to 97): one field, one state change,
  or the exception that is not an \<open>EnvError\<close> and leaves the pass.\<close>

definition cleanEnv_field :: "raw_env \<Rightarrow> pass_state \<Rightarrow> string \<times> jsvalue validator \<Rightarrow> thrown + pass_state" where
  "cleanEnv_field env st entry =
     (let key = fst entry; validator = snd entry;
          value = env_get env key;
          opts = v_options validator;
          st = (if deprecated opts \<noteq> None \<and> value \<noteq> None \<and> value \<noteq> Some [] then
                  st\<lparr>st_warnings := st_warnings st @
                    [\<lparr> ve_key = key,
                       ve_message = ''Deprecated: '' @ the (deprecated opts),
                       ve_value = Some (if secret opts then maskSecret value 4 else the value),
                       ve_isWarning = True \<rparr>]\<rparr>
                else st)
      in if requiredWhen opts \<noteq> None \<and> \<not> the (requiredWhen opts) (st_result st) \<and>
            (value = None \<or> value = Some [])
         then Inr (st\<lparr>st_result := (st_result st)(key \<mapsto> default_opt opts)\<rparr>)
         else
           case parse validator value key env of
             Inr parsed \<Rightarrow> Inr (st\<lparr>st_result := (st_result st)(key \<mapsto> Some parsed)\<rparr>)
           | Inl error \<Rightarrow>
               if is_EnvError error then
                 let errorValue = (if secret opts then Some (maskSecret (error_value error) 4)
                                   else error_value error);
                     validationError = \<lparr> ve_key = key, ve_message = error_message error,
                                         ve_value = errorValue, ve_isWarning = warnOnly opts \<rparr>
                 in if warnOnly opts then
                      Inr (st\<lparr>st_warnings := st_warnings st @ [validationError],
                              st_result := (st_result st)(key \<mapsto> default_opt opts)\<rparr>)
                    else Inr (st\<lparr>st_errors := st_errors st @ [validationError]\<rparr>)
               else Inl error)"

fun cleanEnv_fields :: "raw_env \<Rightarrow> pass_state \<Rightarrow> validator_spec \<Rightarrow> thrown + pass_state" where
  "cleanEnv_fields env st [] = Inr st"
| "cleanEnv_fields env st (entry # entries) =
     (case cleanEnv_field env st entry of
        Inl error \<Rightarrow> Inl error
      | Inr st' \<Rightarrow> cleanEnv_fields env st' entries)"

definition allowedExtraSet :: "string list \<Rightarrow> string set" where
  "allowedExtraSet allowedExtra =
     set (allowedExtra @
       [''NODE_ENV'', ''PATH'', ''HOME'', ''USER'', ''SHELL'', ''TERM'', ''LANG'', ''LC_ALL'',
        ''TZ'', ''PWD'', ''OLDPWD'', ''HOSTNAME'', ''LOGNAME'', ''_''])"

text \<open>The loop over the keys of the raw source (lines 101 to 115).\<close>

fun cleanEnv_extra :: "bool \<Rightarrow> string set \<Rightarrow> string set \<Rightarrow> pass_state \<Rightarrow> string list \<Rightarrow> pass_state" where
  "cleanEnv_extra strict specKeys allowed st [] = st"
| "cleanEnv_extra strict specKeys allowed st (key # keys) =
     cleanEnv_extra strict specKeys allowed
       (if key \<notin> specKeys \<and> key \<notin> allowed \<and> \<not> prefix ''npm_'' key then
          let warning = \<lparr> ve_key = key, ve_message = ''Unknown environment variable'',
                          ve_value = None, ve_isWarning = \<not> strict \<rparr>
          in if strict then st\<lparr>st_errors := st_errors st @ [warning]\<rparr>
             else st\<lparr>st_warnings := st_warnings st @ [warning]\<rparr>
        else st)
       keys"

text \<open>
  The reporter is the caller's. Each handler either returns (\<open>None\<close>) or leaves
  \<open>cleanEnv\<close> with an exception (\<open>Some\<close>), which also stands for ending the process.
\<close>

record reporter =
  onError :: "validation_error list \<Rightarrow> thrown option"
  onWarning :: "(validation_error list \<Rightarrow> thrown option) option"
  onSuccess :: "((string \<rightharpoonup> jsvalue option) \<Rightarrow> thrown option) option"

text \<open>\<open>EnvGuardOptions\<close> after destructuring, the defaults filled in.\<close>

record env_guard_options =
  o_env :: raw_env
  o_reporter :: reporter
  o_strict :: bool
  o_warnOnExtra :: bool
  o_allowedExtra :: "string list"

text \<open>Lines 29 to 116 of \<open>cleanEnv\<close>: the diagnostics and the result before dispatch.\<close>

definition cleanEnv_collect :: "validator_spec \<Rightarrow> env_guard_options \<Rightarrow> thrown + pass_state" where
  "cleanEnv_collect spec options =
     (case cleanEnv_fields (o_env options)
             \<lparr> st_errors = [], st_warnings = [], st_result = Map.empty \<rparr> spec of
        Inl error \<Rightarrow> Inl error
      | Inr st \<Rightarrow>
          Inr (if o_warnOnExtra options \<or> o_strict options then
                 cleanEnv_extra (o_strict options) (set (map fst spec))
                   (allowedExtraSet (o_allowedExtra options)) st (map fst (o_env options))
               else st))"

section \<open>The result guard (src/envguard.ts)\<close>

text \<open>
  The guarded object is a frozen plain object: it has its own properties, all of them
  named by strings, and inherits the members of \<open>Object.prototype\<close>, none of which is
  named by a symbol. A property key is a string or a symbol (given by its description).
\<close>

datatype property_key = PString string | PSymbol string

definition Object_prototype_keys :: "string list" where
  "Object_prototype_keys =
     [''constructor'', ''hasOwnProperty'', ''isPrototypeOf'', ''propertyIsEnumerable'',
      ''toLocaleString'', ''toString'', ''valueOf'', ''__defineGetter__'',
      ''__defineSetter__'', ''__lookupGetter__'', ''__lookupSetter__'', ''__proto__'']"

text \<open>What a read yields: \<open>undefined\<close>, a value of the result, or an inherited member.\<close>

datatype property_value = Undefined | Value jsvalue | Inherited string

text \<open>The operator \<open>in\<close> on a string key: own or inherited.\<close>

definition has_property :: "(string \<rightharpoonup> jsvalue option) \<Rightarrow> string \<Rightarrow> bool" where
  "has_property target name = (target name \<noteq> None \<or> name \<in> set Object_prototype_keys)"

definition Reflect_get :: "(string \<rightharpoonup> jsvalue option) \<Rightarrow> property_key \<Rightarrow> property_value" where
  "Reflect_get target prop =
     (case prop of
        PSymbol d \<Rightarrow> Undefined
      | PString name \<Rightarrow>
          (case target name of
             Some (Some v) \<Rightarrow> Value v
           | Some None \<Rightarrow> Undefined
           | None \<Rightarrow> if name \<in> set Object_prototype_keys then Inherited name else Undefined))"

text \<open>\<open>String(prop)\<close>.\<close>

fun property_key_text :: "property_key \<Rightarrow> string" where
  "property_key_text (PString name) = name"
| "property_key_text (PSymbol d) = ''Symbol('' @ d @ '')''"

record env_proxy =
  px_target :: "string \<rightharpoonup> jsvalue option"
  px_specKeys :: "string set"

definition createEnvProxy :: "(string \<rightharpoonup> jsvalue option) \<Rightarrow> validator_spec \<Rightarrow> env_proxy" where
  "createEnvProxy env spec =
     \<lparr> px_target = env,
       px_specKeys = set (map fst spec @ [''isProduction'', ''isDevelopment'', ''isTest'']) \<rparr>"

text \<open>
  The traps. \<open>get\<close> takes the messages \<open>console.warn\<close> has printed so far and returns them
  with the one it may add; the three mutating traps return or throw.
\<close>

definition proxy_get :: "env_proxy \<Rightarrow> property_key \<Rightarrow> string list \<Rightarrow> property_value \<times> string list" where
  "proxy_get px prop console =
     (case prop of
        PSymbol d \<Rightarrow> (Reflect_get (px_target px) prop, console)
      | PString name \<Rightarrow>
          (Reflect_get (px_target px) prop,
           if name \<notin> px_specKeys px \<and> \<not> has_property (px_target px) name then
             console @ [''[envguard] Accessing undefined environment variable: '' @ name]
           else console))"

definition proxy_set :: "env_proxy \<Rightarrow> property_key \<Rightarrow> thrown + bool" where
  "proxy_set px prop =
     Inl (Error (''Cannot modify environment variable: '' @ property_key_text prop))"

definition proxy_deleteProperty :: "env_proxy \<Rightarrow> property_key \<Rightarrow> thrown + bool" where
  "proxy_deleteProperty px prop =
     Inl (Error (''Cannot delete environment variable: '' @ property_key_text prop))"

definition proxy_defineProperty :: "env_proxy \<Rightarrow> property_key \<Rightarrow> thrown + bool" where
  "proxy_defineProperty px prop =
     Inl (Error (''Cannot define environment variable: '' @ property_key_text prop))"

text \<open>
  \<open>cleanEnv\<close>: the pass, the three calls of the reporter in their order, the frozen
  object with the three flags written over the result, and the guard.
\<close>

definition cleanEnv :: "validator_spec \<Rightarrow> env_guard_options \<Rightarrow> thrown + env_proxy" where
  "cleanEnv spec options =
     (case cleanEnv_collect spec options of
        Inl error \<Rightarrow> Inl error
      | Inr st \<Rightarrow>
          let rep = o_reporter options;
              env = o_env options
          in case (if st_warnings st \<noteq> [] \<and> onWarning rep \<noteq> None
                   then the (onWarning rep) (st_warnings st) else None) of
               Some error \<Rightarrow> Inl error
             | None \<Rightarrow>
                 (case (if st_errors st \<noteq> [] then onError rep (st_errors st) else None) of
                    Some error \<Rightarrow> Inl error
                  | None \<Rightarrow>
                      (case (if st_errors st = [] \<and> onSuccess rep \<noteq> None
                             then the (onSuccess rep) (st_result st) else None) of
                         Some error \<Rightarrow> Inl error
                       | None \<Rightarrow>
                           let finalResult = (st_result st)
                                 (''isProduction'' \<mapsto> Some (JBoolean (isProduction env)),
                                  ''isDevelopment'' \<mapsto> Some (JBoolean (isDevelopment env)),
                                  ''isTest'' \<mapsto> Some (JBoolean (isTest env)))
                           in Inr (createEnvProxy finalResult spec))))"

section \<open>Example inputs\<close>

text \<open>Options that set nothing, a reporter whose handlers all return, and an empty raw
  source with that reporter.\<close>

definition no_options :: "'v validator_options" where
  "no_options =
     \<lparr> default_opt = None, devDefault = None, testDefault = None, choices = None,
       secret = False, deprecated = None, requiredWhen = None, warnOnly = False \<rparr>"

definition quiet_reporter :: reporter where
  "quiet_reporter = \<lparr> onError = (\<lambda>errors. None), onWarning = None, onSuccess = None \<rparr>"

definition quiet_options :: "raw_env \<Rightarrow> env_guard_options" where
  "quiet_options env =
     \<lparr> o_env = env, o_reporter = quiet_reporter, o_strict = False, o_warnOnExtra = False,
       o_allowedExtra = [] \<rparr>"

text \<open>\<open>str(common)\<close>: the string validator with none of its own options set.\<close>

definition str_options :: "string validator_options \<Rightarrow> string_validator_options" where
  "str_options common =
     validator_options.extend common
       \<lparr> minLength = None, maxLength = None, pattern = None, trim = False,
         toLowerCase = False, toUpperCase = False \<rparr>"

text \<open>
  A specification with a warn-only field and a secret field restricted to two values,
  and a raw source that lacks the first and gives the second a value outside them.
\<close>

definition secrets_spec :: validator_spec where
  "secrets_spec =
     [(''OPTIONAL'', as_unknown JString (str (str_options (no_options\<lparr>warnOnly := True\<rparr>)))),
      (''API_KEY'', as_unknown JString
         (str (str_options (no_options\<lparr>secret := True, choices := Some [''a'', ''b'']\<rparr>))))]"

definition secrets_env :: raw_env where
  "secrets_env = [(''API_KEY'', Some ''supersecretvalue'')]"

text \<open>
  The conditional requirement of the specification's own example: \<open>X_URL\<close> is required
  when \<open>USE_X\<close> resolved to \<open>true\<close>; the argument says whether \<open>X_URL\<close> is also \<open>warnOnly\<close>.
\<close>

definition use_x :: "(string \<rightharpoonup> jsvalue option) \<Rightarrow> bool" where
  "use_x r = (r ''USE_X'' = Some (Some (JBoolean True)))"

definition conditional_spec :: "bool \<Rightarrow> validator_spec" where
  "conditional_spec warn =
     [(''USE_X'', as_unknown JBoolean (bool (no_options\<lparr>default_opt := Some False\<rparr>))),
      (''X_URL'', as_unknown JString
         (str (str_options (no_options\<lparr>requiredWhen := Some use_x, warnOnly := warn\<rparr>))))]"

text \<open>
  A raw source with keys outside the specification: one on the fixed allow-list, one
  with the package manager's prefix, one the caller allows and one nobody allows.
\<close>

definition extra_env :: raw_env where
  "extra_env =
     [(''USE_X'', Some ''false''), (''PATH'', Some ''/usr/bin''), (''npm_config_cache'', Some ''c''),
      (''ALLOWED'', Some ''x''), (''MY_EXTRA'', Some ''y'')]"

definition extra_options :: "bool \<Rightarrow> env_guard_options" where
  "extra_options strict =
     \<lparr> o_env = extra_env, o_reporter = quiet_reporter, o_strict = strict,
       o_warnOnExtra = True, o_allowedExtra = [''ALLOWED''] \<rparr>"

text \<open>A specification whose only field is required and bears the name of a derived flag.\<close>

definition flag_named_spec :: validator_spec where
  "flag_named_spec = [(''isTest'', as_unknown JString (str (str_options no_options)))]"

section \<open>The factory: tiered defaults and the missing-value error\<close>

text \<open>
  C3. A validator built by the factory, given an absent or empty raw value and all three
  of \<open>testDefault\<close>, \<open>devDefault\<close> and \<open>default\<close>, returns \<open>testDefault\<close> in tier
  \<open>test\<close>, \<open>default\<close> in tier \<open>production\<close> and \<open>devDefault\<close> in every other tier
  (an absent \<open>NODE_ENV\<close> counts as \<open>development\<close>). The type-specific parser is not
  consulted, whatever it is, so the default returned is not validated.
\<close>

theorem createValidator_default_precedence:
  assumes "value = None \<or> value = Some ''''"
    and "testDefault options = Some t"
    and "devDefault options = Some d"
    and "default_opt options = Some v"
  shows "parse (createValidator ty options parser) value key env =
           (if getNodeEnv env = ''test'' then Inr t
            else if getNodeEnv env \<noteq> ''production'' then Inr d
            else Inr v)"
  using assms by (auto simp: createValidator_def getNodeEnv_def Let_def)

theorem createValidator_default_precedence_witness:
  "parse (createValidator T_string
            (no_options\<lparr>default_opt := Some ''prod'', devDefault := Some ''dev'', testDefault := Some ''tst''\<rparr>)
            (\<lambda>value key env. Inl (Error ''parser called'')))
         None ''HOST'' [(''NODE_ENV'', Some ''test'')] = Inr ''tst''
   \<and> parse (createValidator T_string
            (no_options\<lparr>default_opt := Some ''prod'', devDefault := Some ''dev'', testDefault := Some ''tst''\<rparr>)
            (\<lambda>value key env. Inl (Error ''parser called'')))
         (Some '''') ''HOST'' [] = Inr ''dev''
   \<and> parse (createValidator T_string
            (no_options\<lparr>default_opt := Some ''prod'', devDefault := Some ''dev'', testDefault := Some ''tst''\<rparr>)
            (\<lambda>value key env. Inl (Error ''parser called'')))
         None ''HOST'' [(''NODE_ENV'', Some ''production'')] = Inr ''prod''"
  using createValidator_default_precedence [of None
          "no_options\<lparr>default_opt := Some ''prod'', devDefault := Some ''dev'', testDefault := Some ''tst''\<rparr>"
          "''tst''" "''dev''" "''prod''" T_string "\<lambda>value key env. Inl (Error ''parser called'')" "''HOST''"
          "[(''NODE_ENV'', Some ''test'')]"]
        createValidator_default_precedence [of "Some ''''"
          "no_options\<lparr>default_opt := Some ''prod'', devDefault := Some ''dev'', testDefault := Some ''tst''\<rparr>"
          "''tst''" "''dev''" "''prod''" T_string "\<lambda>value key env. Inl (Error ''parser called'')" "''HOST''"
          "[]"]
        createValidator_default_precedence [of None
          "no_options\<lparr>default_opt := Some ''prod'', devDefault := Some ''dev'', testDefault := Some ''tst''\<rparr>"
          "''tst''" "''dev''" "''prod''" T_string "\<lambda>value key env. Inl (Error ''parser called'')" "''HOST''"
          "[(''NODE_ENV'', Some ''production'')]"]
  by (simp add: no_options_def getNodeEnv_def env_get_def)

text \<open>
  C7. A validator built by the factory, given an absent or empty raw value when no default
  applies in the tier (no \<open>testDefault\<close> in tier \<open>test\<close>, no \<open>devDefault\<close> outside
  \<open>production\<close>, and no \<open>default\<close>), fails with \<open>EnvMissingError\<close> for the field, whose
  message is \<open>Missing required environment variable: \<close> followed by the field name.
\<close>

theorem createValidator_missing_required:
  assumes "value = None \<or> value = Some ''''"
    and "getNodeEnv env = ''test'' \<longrightarrow> testDefault options = None"
    and "getNodeEnv env \<noteq> ''production'' \<longrightarrow> devDefault options = None"
    and "default_opt options = None"
  shows "parse (createValidator ty options parser) value key env = Inl (EnvMissingError key)
         \<and> is_EnvError (EnvMissingError key)
         \<and> error_message (EnvMissingError key) = ''Missing required environment variable: '' @ key"
  using assms by (auto simp: createValidator_def getNodeEnv_def Let_def)

theorem createValidator_missing_required_witness:
  "parse (createValidator T_string (no_options\<lparr>testDefault := Some ''tst''\<rparr>)
            (\<lambda>value key env. Inr value)) None ''API_KEY'' [] = Inl (EnvMissingError ''API_KEY'')
   \<and> error_message (EnvMissingError ''API_KEY'') = ''Missing required environment variable: API_KEY''"
  using createValidator_missing_required [of None "[]" "no_options\<lparr>testDefault := Some ''tst''\<rparr>"
          T_string "\<lambda>value key env. Inr value" "''API_KEY''"]
  by (simp add: no_options_def getNodeEnv_def env_get_def)

section \<open>Unit conversion\<close>

text \<open>
  C8. \<open>duration\<close> parses \<open>5s\<close> to 5000 with the default output unit and to 5 with output
  unit \<open>s\<close>; \<open>bytes\<close> parses \<open>2MB\<close> to 2097152 with the default output unit and to 2 with
  output unit \<open>MB\<close>. Every number in these four computations is an integer below
  \<open>2^53\<close>, where the arithmetic of doubles is exact.
\<close>

theorem unit_conversion_examples:
  "parse (duration show (validator_options.extend no_options \<lparr>d_unit = None\<rparr>))
     (Some ''5s'') key env = Inr 5000
   \<and> parse (duration show (validator_options.extend no_options \<lparr>d_unit = Some D_s\<rparr>))
     (Some ''5s'') key env = Inr 5
   \<and> parse (bytes show (validator_options.extend no_options \<lparr>b_unit = None\<rparr>))
     (Some ''2MB'') key env = Inr 2097152
   \<and> parse (bytes show (validator_options.extend no_options \<lparr>b_unit = Some B_MB\<rparr>))
     (Some ''2MB'') key env = Inr 2"
  by (simp add: duration_def bytes_def createValidator_def validator_options.extend_def
      no_options_def DURATION_REGEX_exec_def BYTES_REGEX_exec_def number_unit_exec_def
      is_digit_def is_space_def String_toLowerCase_def toLowerCase_char_def parseFloat_def
      digits_value_def digit_value_def unit_factor_def DURATION_UNITS_def BYTES_UNITS_def)

section \<open>The aggregate pass: what a field and the scan of the raw keys may change\<close>

lemma cleanEnv_field_result:
  assumes "cleanEnv_field env st entry = Inr st'"
  shows "st_result st' = st_result st \<or> (\<exists>x. st_result st' = (st_result st)(fst entry \<mapsto> x))"
  using assms
  by (auto simp: cleanEnv_field_def Let_def split: if_splits sum.splits)

lemma cleanEnv_field_errors:
  assumes "cleanEnv_field env st entry = Inr st'"
  shows "\<exists>new. st_errors st' = st_errors st @ new \<and> (\<forall>e \<in> set new. ve_key e = fst entry)"
  using assms
  by (auto simp: cleanEnv_field_def Let_def split: if_splits sum.splits)

lemma cleanEnv_field_warnings:
  assumes "cleanEnv_field env st entry = Inr st'"
  shows "\<exists>new. st_warnings st' = st_warnings st @ new \<and> (\<forall>e \<in> set new. ve_key e = fst entry)"
  using assms
  by (auto simp: cleanEnv_field_def Let_def split: if_splits sum.splits)

lemma cleanEnv_fields_append:
  "cleanEnv_fields env st (xs @ ys) =
     (case cleanEnv_fields env st xs of Inl e \<Rightarrow> Inl e | Inr st' \<Rightarrow> cleanEnv_fields env st' ys)"
  by (induction xs arbitrary: st) (auto split: sum.splits)

lemma cleanEnv_fields_result_other:
  assumes "cleanEnv_fields env st entries = Inr st'" and "k \<notin> fst ` set entries"
  shows "st_result st' k = st_result st k"
  using assms
proof (induction entries arbitrary: st)
  case Nil
  then show ?case by simp
next
  case (Cons entry entries)
  from Cons.prems(1) obtain st1 where step: "cleanEnv_field env st entry = Inr st1"
    and rest: "cleanEnv_fields env st1 entries = Inr st'"
    by (auto split: sum.splits)
  from Cons.prems(2) have "k \<noteq> fst entry" and "k \<notin> fst ` set entries" by auto
  with cleanEnv_field_result [OF step] Cons.IH [OF rest] show ?case by auto
qed

lemma cleanEnv_fields_errors:
  assumes "cleanEnv_fields env st entries = Inr st'"
  shows "\<exists>new. st_errors st' = st_errors st @ new \<and> (\<forall>e \<in> set new. ve_key e \<in> fst ` set entries)"
  using assms
proof (induction entries arbitrary: st)
  case Nil
  then show ?case by simp
next
  case (Cons entry entries)
  from Cons.prems obtain st1 where step: "cleanEnv_field env st entry = Inr st1"
    and rest: "cleanEnv_fields env st1 entries = Inr st'"
    by (auto split: sum.splits)
  from cleanEnv_field_errors [OF step] obtain n1
    where n1: "st_errors st1 = st_errors st @ n1" "\<forall>e \<in> set n1. ve_key e = fst entry" by blast
  from Cons.IH [OF rest] obtain n2
    where n2: "st_errors st' = st_errors st1 @ n2" "\<forall>e \<in> set n2. ve_key e \<in> fst ` set entries" by blast
  have "st_errors st' = st_errors st @ (n1 @ n2)" using n1 n2 by simp
  moreover have "\<forall>e \<in> set (n1 @ n2). ve_key e \<in> fst ` set (entry # entries)" using n1 n2 by auto
  ultimately show ?case by blast
qed

lemma cleanEnv_fields_warnings:
  assumes "cleanEnv_fields env st entries = Inr st'"
  shows "\<exists>new. st_warnings st' = st_warnings st @ new \<and> (\<forall>e \<in> set new. ve_key e \<in> fst ` set entries)"
  using assms
proof (induction entries arbitrary: st)
  case Nil
  then show ?case by simp
next
  case (Cons entry entries)
  from Cons.prems obtain st1 where step: "cleanEnv_field env st entry = Inr st1"
    and rest: "cleanEnv_fields env st1 entries = Inr st'"
    by (auto split: sum.splits)
  from cleanEnv_field_warnings [OF step] obtain n1
    where n1: "st_warnings st1 = st_warnings st @ n1" "\<forall>e \<in> set n1. ve_key e = fst entry" by blast
  from Cons.IH [OF rest] obtain n2
    where n2: "st_warnings st' = st_warnings st1 @ n2" "\<forall>e \<in> set n2. ve_key e \<in> fst ` set entries" by blast
  have "st_warnings st' = st_warnings st @ (n1 @ n2)" using n1 n2 by simp
  moreover have "\<forall>e \<in> set (n1 @ n2). ve_key e \<in> fst ` set (entry # entries)" using n1 n2 by auto
  ultimately show ?case by blast
qed

lemma cleanEnv_fields_dom:
  assumes "cleanEnv_fields env st entries = Inr st'"
  shows "dom (st_result st') \<subseteq> dom (st_result st) \<union> fst ` set entries"
proof
  fix k assume k: "k \<in> dom (st_result st')"
  show "k \<in> dom (st_result st) \<union> fst ` set entries"
  proof (cases "k \<in> fst ` set entries")
    case False
    from cleanEnv_fields_result_other [OF assms False] k show ?thesis by (auto simp: dom_def)
  qed simp
qed

lemma cleanEnv_extra_result:
  "st_result (cleanEnv_extra strict specKeys allowed st keys) = st_result st"
  by (induction keys arbitrary: st) (auto simp: Let_def)

lemma cleanEnv_extra_errors:
  "st_errors (cleanEnv_extra strict specKeys allowed st keys) =
     st_errors st @
       (if strict then
          map (\<lambda>k. \<lparr> ve_key = k, ve_message = ''Unknown environment variable'',
                      ve_value = None, ve_isWarning = False \<rparr>)
            (filter (\<lambda>k. k \<notin> specKeys \<and> k \<notin> allowed \<and> \<not> prefix ''npm_'' k) keys)
        else [])"
  by (induction keys arbitrary: st) (auto simp: Let_def)

lemma cleanEnv_extra_warnings:
  "st_warnings (cleanEnv_extra strict specKeys allowed st keys) =
     st_warnings st @
       (if strict then []
        else
          map (\<lambda>k. \<lparr> ve_key = k, ve_message = ''Unknown environment variable'',
                      ve_value = None, ve_isWarning = True \<rparr>)
            (filter (\<lambda>k. k \<notin> specKeys \<and> k \<notin> allowed \<and> \<not> prefix ''npm_'' k) keys))"
  by (induction keys arbitrary: st) (auto simp: Let_def)

lemma cleanEnv_collect_fields:
  assumes "cleanEnv_collect spec options = Inr final"
  shows "\<exists>stF. cleanEnv_fields (o_env options)
                 \<lparr> st_errors = [], st_warnings = [], st_result = Map.empty \<rparr> spec = Inr stF
           \<and> st_result final = st_result stF
           \<and> (\<exists>new. st_errors final = st_errors stF @ new \<and> (\<forall>e \<in> set new. ve_key e \<notin> fst ` set spec))
           \<and> (\<exists>new. st_warnings final = st_warnings stF @ new \<and> (\<forall>e \<in> set new. ve_key e \<notin> fst ` set spec))"
proof -
  from assms obtain stF where stF: "cleanEnv_fields (o_env options)
      \<lparr> st_errors = [], st_warnings = [], st_result = Map.empty \<rparr> spec = Inr stF"
    and final: "final = (if o_warnOnExtra options \<or> o_strict options then
                 cleanEnv_extra (o_strict options) (set (map fst spec))
                   (allowedExtraSet (o_allowedExtra options)) stF (map fst (o_env options))
               else stF)"
    by (auto simp: cleanEnv_collect_def split: sum.splits)
  show ?thesis
  proof (cases "o_warnOnExtra options \<or> o_strict options")
    case True
    with final have f: "final = cleanEnv_extra (o_strict options) (set (map fst spec))
         (allowedExtraSet (o_allowedExtra options)) stF (map fst (o_env options))" by simp
    have "st_result final = st_result stF" unfolding f by (rule cleanEnv_extra_result)
    moreover have "\<exists>new. st_errors final = st_errors stF @ new \<and> (\<forall>e \<in> set new. ve_key e \<notin> fst ` set spec)"
      unfolding f cleanEnv_extra_errors by (auto simp: image_iff)
    moreover have "\<exists>new. st_warnings final = st_warnings stF @ new \<and> (\<forall>e \<in> set new. ve_key e \<notin> fst ` set spec)"
      unfolding f cleanEnv_extra_warnings by (auto simp: image_iff)
    ultimately show ?thesis using stF by blast
  next
    case False
    with final have "final = stF" by simp
    with stF show ?thesis by simp
  qed
qed

text \<open>
  One field of the specification seen from the end of the pass: what the state held when
  the loop reached the field, what the field's iteration made of it, and what of that
  is still there after the remaining fields and the scan of the raw keys.
\<close>

lemma cleanEnv_collect_at_field:
  assumes spec: "spec = before @ (key, validator) # rest"
    and dist: "distinct (map fst spec)"
    and before: "cleanEnv_fields (o_env options)
                   \<lparr> st_errors = [], st_warnings = [], st_result = Map.empty \<rparr> before = Inr st"
    and final: "cleanEnv_collect spec options = Inr final"
  shows "\<exists>st1. cleanEnv_field (o_env options) st (key, validator) = Inr st1
           \<and> st_result final key = st_result st1 key
           \<and> set (st_errors st1) \<subseteq> set (st_errors final)
           \<and> set (st_warnings st1) \<subseteq> set (st_warnings final)
           \<and> (\<forall>e \<in> set (st_errors final). ve_key e = key \<longrightarrow> e \<in> set (st_errors st1))
           \<and> (\<forall>e \<in> set (st_warnings final). ve_key e = key \<longrightarrow> e \<in> set (st_warnings st1))"
proof -
  let ?env = "o_env options"
  let ?init = "\<lparr> st_errors = [], st_warnings = [], st_result = Map.empty \<rparr>"
  from cleanEnv_collect_fields [OF final] obtain stF ne nw where
    stF: "cleanEnv_fields ?env ?init spec = Inr stF"
    and res: "st_result final = st_result stF"
    and ne: "st_errors final = st_errors stF @ ne" "\<forall>e \<in> set ne. ve_key e \<notin> fst ` set spec"
    and nw: "st_warnings final = st_warnings stF @ nw" "\<forall>e \<in> set nw. ve_key e \<notin> fst ` set spec"
    by blast
  from stF before have "cleanEnv_fields ?env st ((key, validator) # rest) = Inr stF"
    unfolding spec by (simp add: cleanEnv_fields_append)
  then obtain st1 where step: "cleanEnv_field ?env st (key, validator) = Inr st1"
    and rest: "cleanEnv_fields ?env st1 rest = Inr stF"
    by (auto split: sum.splits)
  from dist have notin: "key \<notin> fst ` set rest" and key_in: "key \<in> fst ` set spec"
    unfolding spec by auto
  from cleanEnv_fields_errors [OF rest] obtain re where
    re: "st_errors stF = st_errors st1 @ re" "\<forall>e \<in> set re. ve_key e \<in> fst ` set rest" by blast
  from cleanEnv_fields_warnings [OF rest] obtain rw where
    rw: "st_warnings stF = st_warnings st1 @ rw" "\<forall>e \<in> set rw. ve_key e \<in> fst ` set rest" by blast
  have "st_result final key = st_result st1 key"
    using cleanEnv_fields_result_other [OF rest notin] res by simp
  moreover have "set (st_errors st1) \<subseteq> set (st_errors final)" using ne(1) re(1) by auto
  moreover have "set (st_warnings st1) \<subseteq> set (st_warnings final)" using nw(1) rw(1) by auto
  moreover have "\<forall>e \<in> set (st_errors final). ve_key e = key \<longrightarrow> e \<in> set (st_errors st1)"
    using ne re notin key_in by auto
  moreover have "\<forall>e \<in> set (st_warnings final). ve_key e = key \<longrightarrow> e \<in> set (st_warnings st1)"
    using nw rw notin key_in by auto
  ultimately show ?thesis using step by blast
qed

lemma cleanEnv_fields_before:
  assumes "cleanEnv_fields env \<lparr> st_errors = [], st_warnings = [], st_result = Map.empty \<rparr> before = Inr st"
    and "key \<notin> fst ` set before"
  shows "st_result st key = None"
    and "\<forall>e \<in> set (st_errors st). ve_key e \<noteq> key"
    and "\<forall>e \<in> set (st_warnings st). ve_key e \<noteq> key"
    and "dom (st_result st) \<subseteq> fst ` set before"
proof -
  show "st_result st key = None"
    using cleanEnv_fields_result_other [OF assms] by simp
  show "\<forall>e \<in> set (st_errors st). ve_key e \<noteq> key"
    using cleanEnv_fields_errors [OF assms(1)] assms(2) by auto
  show "\<forall>e \<in> set (st_warnings st). ve_key e \<noteq> key"
    using cleanEnv_fields_warnings [OF assms(1)] assms(2) by auto
  show "dom (st_result st) \<subseteq> fst ` set before"
    using cleanEnv_fields_dom [OF assms(1)] by simp
qed

lemma cleanEnv_field_skipped:
  assumes "requiredWhen (v_options validator) = Some p"
    and "\<not> p (st_result st)"
    and "env_get env key = None \<or> env_get env key = Some ''''"
  shows "cleanEnv_field env st (key, validator) =
           Inr (st\<lparr>st_result := (st_result st)(key \<mapsto> default_opt (v_options validator))\<rparr>)"
  using assms by (auto simp: cleanEnv_field_def Let_def)

lemma cleanEnv_field_parse_error:
  assumes "\<not> (requiredWhen (v_options validator) \<noteq> None
              \<and> \<not> the (requiredWhen (v_options validator)) (st_result st)
              \<and> (env_get env key = None \<or> env_get env key = Some ''''))"
    and "parse validator (env_get env key) key env = Inl error"
    and "is_EnvError error"
    and "cleanEnv_field env st (key, validator) = Inr st1"
  shows "if warnOnly (v_options validator)
         then st_errors st1 = st_errors st
            \<and> \<lparr> ve_key = key, ve_message = error_message error,
                 ve_value = (if secret (v_options validator)
                             then Some (maskSecret (error_value error) 4) else error_value error),
                 ve_isWarning = True \<rparr> \<in> set (st_warnings st1)
            \<and> st_result st1 = (st_result st)(key \<mapsto> default_opt (v_options validator))
         else st_errors st1 = st_errors st @
                [\<lparr> ve_key = key, ve_message = error_message error,
                   ve_value = (if secret (v_options validator)
                               then Some (maskSecret (error_value error) 4) else error_value error),
                   ve_isWarning = False \<rparr>]
            \<and> st_result st1 = st_result st"
  using assms by (auto simp: cleanEnv_field_def Let_def split: if_splits)

lemma as_unknown_createValidator:
  "as_unknown f (createValidator ty opts parser) =
     createValidator ty (map_validator_options f (validator_options.truncate opts))
       (\<lambda>value key env. map_sum id f (parser value key env))"
  by (auto simp: as_unknown_def createValidator_def map_validator_options_def
      validator_options.truncate_def Let_def fun_eq_iff)

lemma createValidator_options:
  "v_options (createValidator ty opts parser) = validator_options.truncate opts"
  by (simp add: createValidator_def)

lemma createValidator_parse_missing:
  assumes "value = None \<or> value = Some ''''"
    and "getNodeEnv env = ''test'' \<longrightarrow> testDefault opts = None"
    and "getNodeEnv env \<noteq> ''production'' \<longrightarrow> devDefault opts = None"
    and "default_opt opts = None"
  shows "parse (createValidator ty opts parser) value key env = Inl (EnvMissingError key)"
  using assms by (auto simp: createValidator_def getNodeEnv_def Let_def)

lemma filter_key_of_extra:
  assumes "distinct keys"
  shows "filter (\<lambda>e. ve_key e = k)
           (map (\<lambda>k. \<lparr> ve_key = k, ve_message = m, ve_value = None, ve_isWarning = w \<rparr>)
              (filter P keys)) =
         (if k \<in> set keys \<and> P k
          then [\<lparr> ve_key = k, ve_message = m, ve_value = None, ve_isWarning = w \<rparr>] else [])"
  using assms by (induction keys) auto

lemma cleanEnv_fields_no_foreign_key:
  assumes "cleanEnv_fields env \<lparr> st_errors = [], st_warnings = [], st_result = Map.empty \<rparr> spec = Inr stF"
    and "k \<notin> fst ` set spec"
  shows "filter (\<lambda>e. ve_key e = k) (st_errors stF) = []"
    and "filter (\<lambda>e. ve_key e = k) (st_warnings stF) = []"
  using cleanEnv_fields_before(2,3) [OF assms] by (auto simp: filter_empty_conv)

lemmas example_defs =
  quiet_options_def quiet_reporter_def no_options_def str_options_def
  as_unknown_def map_validator_options_def str_def bool_def createValidator_def
  validator_options.truncate_def validator_options.extend_def
  cleanEnv_collect_def cleanEnv_field_def env_get_def maskSecret_def Let_def

lemmas secrets_defs = secrets_spec_def secrets_env_def example_defs

lemmas conditional_defs = conditional_spec_def use_x_def String_toLowerCase_def toLowerCase_char_def
  trueValues_def falseValues_def example_defs

lemmas extra_defs = extra_options_def extra_env_def allowedExtraSet_def conditional_defs

lemma cleanEnv_returns:
  assumes "cleanEnv spec options = Inr px"
  shows "\<exists>final. cleanEnv_collect spec options = Inr final
          \<and> px = createEnvProxy ((st_result final)
                 (''isProduction'' \<mapsto> Some (JBoolean (isProduction (o_env options))),
                  ''isDevelopment'' \<mapsto> Some (JBoolean (isDevelopment (o_env options))),
                  ''isTest'' \<mapsto> Some (JBoolean (isTest (o_env options))))) spec"
  using assms
  by (auto simp: cleanEnv_def Let_def split: sum.splits option.splits if_splits)

lemma cleanEnv_collect_dom:
  assumes "cleanEnv_collect spec options = Inr final"
  shows "dom (st_result final) \<subseteq> fst ` set spec"
proof -
  from cleanEnv_collect_fields [OF assms] obtain stF where
    stF: "cleanEnv_fields (o_env options)
       \<lparr> st_errors = [], st_warnings = [], st_result = Map.empty \<rparr> spec = Inr stF"
    and res: "st_result final = st_result stF" by blast
  from cleanEnv_fields_dom [OF stF] res show ?thesis by simp
qed

lemmas guard_defs = cleanEnv_def createEnvProxy_def proxy_get_def Reflect_get_def has_property_def
  Object_prototype_keys_def isProduction_def isDevelopment_def isTest_def getNodeEnv_def

section \<open>The aggregate pass: failures, conditional requirement, extra keys\<close>

text \<open>
  C5. When the pass reaches a field, calls its \<open>parse\<close> and \<open>parse\<close> throws an \<open>EnvError\<close>:
  with \<open>warnOnly\<close> the diagnostic (the error's message, its value masked when \<open>secret\<close>
  is set) is among the warnings, no hard error carries the field's name, and the field
  holds the static \<open>default\<close>; without \<open>warnOnly\<close> the diagnostic is among the hard
  errors and the field is absent from the result.
\<close>

theorem cleanEnv_parse_error_recorded:
  assumes "spec = before @ (key, validator) # rest"
    and "distinct (map fst spec)"
    and "cleanEnv_fields (o_env options)
           \<lparr> st_errors = [], st_warnings = [], st_result = Map.empty \<rparr> before = Inr st"
    and "\<not> (requiredWhen (v_options validator) \<noteq> None
              \<and> \<not> the (requiredWhen (v_options validator)) (st_result st)
              \<and> (env_get (o_env options) key = None \<or> env_get (o_env options) key = Some ''''))"
    and "parse validator (env_get (o_env options) key) key (o_env options) = Inl error"
    and "is_EnvError error"
    and "cleanEnv_collect spec options = Inr final"
  shows "if warnOnly (v_options validator)
         then \<lparr> ve_key = key, ve_message = error_message error,
                ve_value = (if secret (v_options validator)
                            then Some (maskSecret (error_value error) 4) else error_value error),
                ve_isWarning = True \<rparr> \<in> set (st_warnings final)
            \<and> (\<forall>e \<in> set (st_errors final). ve_key e \<noteq> key)
            \<and> st_result final key = Some (default_opt (v_options validator))
         else \<lparr> ve_key = key, ve_message = error_message error,
                ve_value = (if secret (v_options validator)
                            then Some (maskSecret (error_value error) 4) else error_value error),
                ve_isWarning = False \<rparr> \<in> set (st_errors final)
            \<and> st_result final key = None"
proof -
  from assms(1,2) have notin: "key \<notin> fst ` set before" by auto
  note st = cleanEnv_fields_before [OF assms(3) notin]
  from cleanEnv_collect_at_field [OF assms(1,2,3,7)] obtain st1 where
    step: "cleanEnv_field (o_env options) st (key, validator) = Inr st1"
    and res: "st_result final key = st_result st1 key"
    and errs: "set (st_errors st1) \<subseteq> set (st_errors final)"
    and warns: "set (st_warnings st1) \<subseteq> set (st_warnings final)"
    and only: "\<forall>e \<in> set (st_errors final). ve_key e = key \<longrightarrow> e \<in> set (st_errors st1)"
    by blast
  note outcome = cleanEnv_field_parse_error [OF assms(4,5,6) step]
  show ?thesis
  proof (cases "warnOnly (v_options validator)")
    case True
    with outcome have o: "st_errors st1 = st_errors st"
      "\<lparr> ve_key = key, ve_message = error_message error,
         ve_value = (if secret (v_options validator)
                     then Some (maskSecret (error_value error) 4) else error_value error),
         ve_isWarning = True \<rparr> \<in> set (st_warnings st1)"
      "st_result st1 = (st_result st)(key \<mapsto> default_opt (v_options validator))"
      by simp_all
    have "\<forall>e \<in> set (st_errors final). ve_key e \<noteq> key"
      using only o(1) st(2) by auto
    moreover have "st_result final key = Some (default_opt (v_options validator))"
      using res o(3) by simp
    ultimately show ?thesis using True o(2) warns by auto
  next
    case False
    with outcome have o: "st_errors st1 = st_errors st @
        [\<lparr> ve_key = key, ve_message = error_message error,
           ve_value = (if secret (v_options validator)
                       then Some (maskSecret (error_value error) 4) else error_value error),
           ve_isWarning = False \<rparr>]"
      "st_result st1 = st_result st"
      by simp_all
    have "st_result final key = None" using res o(2) st(1) by simp
    then show ?thesis using False o(1) errs by auto
  qed
qed

theorem cleanEnv_parse_error_recorded_witness:
  "\<not> isl (cleanEnv_collect secrets_spec (quiet_options secrets_env))
   \<and> \<lparr> ve_key = ''OPTIONAL'', ve_message = ''Missing required environment variable: OPTIONAL'',
      ve_value = None, ve_isWarning = True \<rparr>
     \<in> set (st_warnings (projr (cleanEnv_collect secrets_spec (quiet_options secrets_env))))
   \<and> st_result (projr (cleanEnv_collect secrets_spec (quiet_options secrets_env))) ''OPTIONAL'' = Some None
   \<and> \<lparr> ve_key = ''API_KEY'', ve_message = ''Invalid value for API_KEY: must be one of: a, b'',
        ve_value = Some ''supe********alue'', ve_isWarning = False \<rparr>
     \<in> set (st_errors (projr (cleanEnv_collect secrets_spec (quiet_options secrets_env))))
   \<and> st_result (projr (cleanEnv_collect secrets_spec (quiet_options secrets_env))) ''API_KEY'' = None"
proof -
  let ?opts = "quiet_options secrets_env"
  let ?init = "\<lparr> st_errors = [], st_warnings = [], st_result = Map.empty \<rparr>"
  let ?v1 = "snd (secrets_spec ! 0)" and ?v2 = "snd (secrets_spec ! 1)"
  let ?final = "projr (cleanEnv_collect secrets_spec ?opts)"
  have final: "cleanEnv_collect secrets_spec ?opts = Inr ?final"
    by (simp add: secrets_defs)
  have nl: "\<not> isl (cleanEnv_collect secrets_spec ?opts)"
    by (simp add: secrets_defs)
  have dist: "distinct (map fst secrets_spec)" by (simp add: secrets_spec_def)
  have s1: "secrets_spec = [] @ (''OPTIONAL'', ?v1) # [secrets_spec ! 1]"
    and s2: "secrets_spec = [secrets_spec ! 0] @ (''API_KEY'', ?v2) # []"
    by (simp_all add: secrets_spec_def)
  have b1: "cleanEnv_fields (o_env ?opts) ?init [] = Inr ?init" by simp
  have b2: "cleanEnv_fields (o_env ?opts) ?init [secrets_spec ! 0] =
              Inr (projr (cleanEnv_fields (o_env ?opts) ?init [secrets_spec ! 0]))"
    by (simp add: secrets_defs)
  have n1: "\<not> (requiredWhen (v_options ?v1) \<noteq> None
              \<and> \<not> the (requiredWhen (v_options ?v1)) (st_result ?init)
              \<and> (env_get (o_env ?opts) ''OPTIONAL'' = None \<or> env_get (o_env ?opts) ''OPTIONAL'' = Some ''''))"
    by (simp add: secrets_defs)
  have n2: "\<not> (requiredWhen (v_options ?v2) \<noteq> None
              \<and> \<not> the (requiredWhen (v_options ?v2))
                    (st_result (projr (cleanEnv_fields (o_env ?opts) ?init [secrets_spec ! 0])))
              \<and> (env_get (o_env ?opts) ''API_KEY'' = None \<or> env_get (o_env ?opts) ''API_KEY'' = Some ''''))"
    by (simp add: secrets_defs)
  have p1: "parse ?v1 (env_get (o_env ?opts) ''OPTIONAL'') ''OPTIONAL'' (o_env ?opts)
              = Inl (EnvMissingError ''OPTIONAL'')"
    by (simp add: secrets_defs)
  have p2: "parse ?v2 (env_get (o_env ?opts) ''API_KEY'') ''API_KEY'' (o_env ?opts)
              = Inl (EnvValidationError ''API_KEY'' ''must be one of: a, b'' (Some ''supersecretvalue''))"
    by (simp add: secrets_defs)
  have w1: "warnOnly (v_options ?v1)" and w2: "\<not> warnOnly (v_options ?v2)"
    and sec1: "\<not> secret (v_options ?v1)" and sec2: "secret (v_options ?v2)"
    and d1: "default_opt (v_options ?v1) = None"
    by (simp_all add: secrets_defs)
  from cleanEnv_parse_error_recorded [OF s1 dist b1 n1 p1 _ final]
       cleanEnv_parse_error_recorded [OF s2 dist b2 n2 p2 _ final]
  show ?thesis
    using w1 w2 sec1 sec2 d1 nl by (simp add: maskSecret_def)
qed

text \<open>
  C4 (as amended). For a field that sets \<open>requiredWhen\<close> and whose raw value is absent or
  empty, the predicate is applied to the result as the earlier fields left it, which
  holds no other keys than theirs. If it returns false, the field holds the static
  \<open>default\<close> (possibly \<open>undefined\<close>) and no diagnostic carries its name, whatever its
  \<open>parse\<close> would do. If it returns true and the factory-built validator has no default
  for the tier, the missing-required diagnostic is recorded: as a hard error, the field
  staying unset, unless the field is \<open>warnOnly\<close>, and then as a warning, the field
  holding its (absent) \<open>default\<close>.
\<close>

theorem requiredWhen_policy:
  assumes "spec = before @ (key, validator) # rest"
    and "distinct (map fst spec)"
    and "cleanEnv_fields (o_env options)
           \<lparr> st_errors = [], st_warnings = [], st_result = Map.empty \<rparr> before = Inr st"
    and "requiredWhen (v_options validator) = Some p"
    and "env_get (o_env options) key = None \<or> env_get (o_env options) key = Some ''''"
    and "cleanEnv_collect spec options = Inr final"
  shows "dom (st_result st) \<subseteq> fst ` set before
     \<and> (\<not> p (st_result st) \<longrightarrow>
          st_result final key = Some (default_opt (v_options validator))
          \<and> (\<forall>e \<in> set (st_errors final) \<union> set (st_warnings final). ve_key e \<noteq> key))
     \<and> (p (st_result st) \<and> validator = createValidator ty opts parser
          \<and> (getNodeEnv (o_env options) = ''test'' \<longrightarrow> testDefault opts = None)
          \<and> (getNodeEnv (o_env options) \<noteq> ''production'' \<longrightarrow> devDefault opts = None)
          \<and> default_opt opts = None \<longrightarrow>
          (if warnOnly opts
           then \<lparr> ve_key = key, ve_message = ''Missing required environment variable: '' @ key,
                  ve_value = (if secret opts then Some ''[undefined]'' else None),
                  ve_isWarning = True \<rparr> \<in> set (st_warnings final)
              \<and> (\<forall>e \<in> set (st_errors final). ve_key e \<noteq> key)
              \<and> st_result final key = Some None
           else \<lparr> ve_key = key, ve_message = ''Missing required environment variable: '' @ key,
                  ve_value = (if secret opts then Some ''[undefined]'' else None),
                  ve_isWarning = False \<rparr> \<in> set (st_errors final)
              \<and> st_result final key = None))"
proof -
  let ?env = "o_env options"
  from assms(1,2) have notin: "key \<notin> fst ` set before" by auto
  note st = cleanEnv_fields_before [OF assms(3) notin]
  from cleanEnv_collect_at_field [OF assms(1,2,3,6)] obtain st1 where
    step: "cleanEnv_field ?env st (key, validator) = Inr st1"
    and res: "st_result final key = st_result st1 key"
    and errs: "set (st_errors st1) \<subseteq> set (st_errors final)"
    and warns: "set (st_warnings st1) \<subseteq> set (st_warnings final)"
    and only_e: "\<forall>e \<in> set (st_errors final). ve_key e = key \<longrightarrow> e \<in> set (st_errors st1)"
    and only_w: "\<forall>e \<in> set (st_warnings final). ve_key e = key \<longrightarrow> e \<in> set (st_warnings st1)"
    by blast
  have skipped: "st_result final key = Some (default_opt (v_options validator))
          \<and> (\<forall>e \<in> set (st_errors final) \<union> set (st_warnings final). ve_key e \<noteq> key)"
    if "\<not> p (st_result st)"
  proof -
    from cleanEnv_field_skipped [OF assms(4) that assms(5)] step
    have st1: "st1 = st\<lparr>st_result := (st_result st)(key \<mapsto> default_opt (v_options validator))\<rparr>"
      by simp
    have "st_result final key = Some (default_opt (v_options validator))"
      using res st1 by simp
    moreover have "\<forall>e \<in> set (st_errors final). ve_key e \<noteq> key"
      using only_e st(2) st1 by auto
    moreover have "\<forall>e \<in> set (st_warnings final). ve_key e \<noteq> key"
      using only_w st(3) st1 by auto
    ultimately show ?thesis by blast
  qed
  have required: "if warnOnly opts
           then \<lparr> ve_key = key, ve_message = ''Missing required environment variable: '' @ key,
                  ve_value = (if secret opts then Some ''[undefined]'' else None),
                  ve_isWarning = True \<rparr> \<in> set (st_warnings final)
              \<and> (\<forall>e \<in> set (st_errors final). ve_key e \<noteq> key)
              \<and> st_result final key = Some None
           else \<lparr> ve_key = key, ve_message = ''Missing required environment variable: '' @ key,
                  ve_value = (if secret opts then Some ''[undefined]'' else None),
                  ve_isWarning = False \<rparr> \<in> set (st_errors final)
              \<and> st_result final key = None"
    if p: "p (st_result st)" and v: "validator = createValidator ty opts parser"
      and t: "getNodeEnv ?env = ''test'' \<longrightarrow> testDefault opts = None"
      and d: "getNodeEnv ?env \<noteq> ''production'' \<longrightarrow> devDefault opts = None"
      and n: "default_opt opts = None"
  proof -
    have o: "warnOnly (v_options validator) = warnOnly opts"
      "secret (v_options validator) = secret opts"
      "default_opt (v_options validator) = None"
      using n by (simp_all add: v createValidator_options validator_options.truncate_def)
    have parse: "parse validator (env_get ?env key) key ?env = Inl (EnvMissingError key)"
      unfolding v by (rule createValidator_parse_missing [OF assms(5) t d n])
    have not_skipped: "\<not> (requiredWhen (v_options validator) \<noteq> None
              \<and> \<not> the (requiredWhen (v_options validator)) (st_result st)
              \<and> (env_get ?env key = None \<or> env_get ?env key = Some ''''))"
      using assms(4) p by simp
    have ee: "is_EnvError (EnvMissingError key)" by simp
    note outcome = cleanEnv_field_parse_error [OF not_skipped parse ee step]
    show ?thesis
    proof (cases "warnOnly opts")
      case True
      with outcome o have "st_errors st1 = st_errors st"
        "\<lparr> ve_key = key, ve_message = ''Missing required environment variable: '' @ key,
           ve_value = (if secret opts then Some ''[undefined]'' else None),
           ve_isWarning = True \<rparr> \<in> set (st_warnings st1)"
        "st_result st1 = (st_result st)(key \<mapsto> None)"
        by (simp_all add: maskSecret_def split: if_splits)
      then show ?thesis using True warns only_e st(2) res by auto
    next
      case False
      with outcome o have "st_errors st1 = st_errors st @
          [\<lparr> ve_key = key, ve_message = ''Missing required environment variable: '' @ key,
             ve_value = (if secret opts then Some ''[undefined]'' else None),
             ve_isWarning = False \<rparr>]"
        "st_result st1 = st_result st"
        by (simp_all add: maskSecret_def split: if_splits)
      then show ?thesis using False errs res st(1) by auto
    qed
  qed
  have part2: "\<not> p (st_result st) \<longrightarrow>
          st_result final key = Some (default_opt (v_options validator))
          \<and> (\<forall>e \<in> set (st_errors final) \<union> set (st_warnings final). ve_key e \<noteq> key)"
    using skipped by (intro impI)
  have part3: "p (st_result st) \<and> validator = createValidator ty opts parser
          \<and> (getNodeEnv (o_env options) = ''test'' \<longrightarrow> testDefault opts = None)
          \<and> (getNodeEnv (o_env options) \<noteq> ''production'' \<longrightarrow> devDefault opts = None)
          \<and> default_opt opts = None \<longrightarrow>
          (if warnOnly opts
           then \<lparr> ve_key = key, ve_message = ''Missing required environment variable: '' @ key,
                  ve_value = (if secret opts then Some ''[undefined]'' else None),
                  ve_isWarning = True \<rparr> \<in> set (st_warnings final)
              \<and> (\<forall>e \<in> set (st_errors final). ve_key e \<noteq> key)
              \<and> st_result final key = Some None
           else \<lparr> ve_key = key, ve_message = ''Missing required environment variable: '' @ key,
                  ve_value = (if secret opts then Some ''[undefined]'' else None),
                  ve_isWarning = False \<rparr> \<in> set (st_errors final)
              \<and> st_result final key = None)"
    by (intro impI, elim conjE) (rule required)
  show ?thesis by (intro conjI st(4) part2 part3)
qed

theorem requiredWhen_policy_counterexample:
  "use_x [''USE_X'' \<mapsto> Some (JBoolean True)]
   \<and> cleanEnv_collect (conditional_spec True) (quiet_options [(''USE_X'', Some ''true'')]) =
       Inr \<lparr> st_errors = [],
             st_warnings = [\<lparr> ve_key = ''X_URL'',
                               ve_message = ''Missing required environment variable: X_URL'',
                               ve_value = None, ve_isWarning = True \<rparr>],
             st_result = [''USE_X'' \<mapsto> Some (JBoolean True), ''X_URL'' \<mapsto> None] \<rparr>"
  by (simp add: conditional_defs)

theorem requiredWhen_policy_witness:
  "\<not> isl (cleanEnv_collect (conditional_spec False) (quiet_options [(''USE_X'', Some ''false'')]))
   \<and> st_result (projr (cleanEnv_collect (conditional_spec False)
                         (quiet_options [(''USE_X'', Some ''false'')]))) ''X_URL'' = Some None
   \<and> st_errors (projr (cleanEnv_collect (conditional_spec False)
                         (quiet_options [(''USE_X'', Some ''false'')]))) = []
   \<and> \<not> isl (cleanEnv_collect (conditional_spec False) (quiet_options [(''USE_X'', Some ''true'')]))
   \<and> \<lparr> ve_key = ''X_URL'', ve_message = ''Missing required environment variable: X_URL'',
        ve_value = None, ve_isWarning = False \<rparr>
       \<in> set (st_errors (projr (cleanEnv_collect (conditional_spec False)
                                 (quiet_options [(''USE_X'', Some ''true'')]))))
   \<and> st_result (projr (cleanEnv_collect (conditional_spec False)
                         (quiet_options [(''USE_X'', Some ''true'')]))) ''X_URL'' = None"
proof -
  let ?spec = "conditional_spec False"
  let ?off = "quiet_options [(''USE_X'', Some ''false'')]"
  let ?on = "quiet_options [(''USE_X'', Some ''true'')]"
  let ?init = "\<lparr> st_errors = [], st_warnings = [], st_result = Map.empty \<rparr>"
  let ?v = "snd (?spec ! 1)"
  let ?o = "map_validator_options JString (validator_options.truncate
              (str_options (no_options\<lparr>requiredWhen := Some use_x, warnOnly := False\<rparr>)))"
  have split: "?spec = [?spec ! 0] @ (''X_URL'', ?v) # []"
    and dist: "distinct (map fst ?spec)"
    by (simp_all add: conditional_spec_def)
  have rq: "requiredWhen (v_options ?v) = Some use_x"
    by (simp add: conditional_defs)
  have "\<exists>parser. ?v = createValidator T_string ?o parser"
    unfolding conditional_spec_def str_def as_unknown_createValidator
    by (simp, blast)
  then obtain parser where v: "?v = createValidator T_string ?o parser" ..
  have o: "\<not> warnOnly ?o" "\<not> secret ?o" "default_opt ?o = None" "devDefault ?o = None"
    "testDefault ?o = None" "default_opt (v_options ?v) = None"
    by (simp_all add: conditional_defs)
  have nl_off: "\<not> isl (cleanEnv_collect ?spec ?off)" and nl_on: "\<not> isl (cleanEnv_collect ?spec ?on)"
    by (simp_all add: conditional_defs)
  have errs_off: "st_errors (projr (cleanEnv_collect ?spec ?off)) = []"
    by (simp add: conditional_defs)
  have final_off: "cleanEnv_collect ?spec ?off = Inr (projr (cleanEnv_collect ?spec ?off))"
    and final_on: "cleanEnv_collect ?spec ?on = Inr (projr (cleanEnv_collect ?spec ?on))"
    by (simp_all add: conditional_defs)
  have before_off: "cleanEnv_fields (o_env ?off) ?init [?spec ! 0] =
                      Inr \<lparr> st_errors = [], st_warnings = [],
                            st_result = [''USE_X'' \<mapsto> Some (JBoolean False)] \<rparr>"
    and before_on: "cleanEnv_fields (o_env ?on) ?init [?spec ! 0] =
                      Inr \<lparr> st_errors = [], st_warnings = [],
                            st_result = [''USE_X'' \<mapsto> Some (JBoolean True)] \<rparr>"
    by (simp_all add: conditional_defs)
  have absent_off: "env_get (o_env ?off) ''X_URL'' = None \<or> env_get (o_env ?off) ''X_URL'' = Some ''''"
    and absent_on: "env_get (o_env ?on) ''X_URL'' = None \<or> env_get (o_env ?on) ''X_URL'' = Some ''''"
    by (simp_all add: conditional_defs)
  have p_off: "\<not> use_x (st_result \<lparr> st_errors = [], st_warnings = [],
                    st_result = [''USE_X'' \<mapsto> Some (JBoolean False)] \<rparr>)"
    and p_on: "use_x (st_result \<lparr> st_errors = [], st_warnings = [],
                    st_result = [''USE_X'' \<mapsto> Some (JBoolean True)] \<rparr>)"
    by (simp_all add: use_x_def)
  have tier: "getNodeEnv (o_env ?on) = ''development''"
    by (simp add: getNodeEnv_def conditional_defs)
  note off = requiredWhen_policy [OF split dist before_off rq absent_off final_off,
      THEN conjunct2, THEN conjunct1, rule_format, OF p_off]
  note on = requiredWhen_policy [OF split dist before_on rq absent_on final_on,
      where ty = T_string and opts = ?o and parser = parser,
      THEN conjunct2, THEN conjunct2, rule_format]
  have "st_result (projr (cleanEnv_collect ?spec ?off)) ''X_URL'' = Some None"
    using off o(6) by simp
  moreover have "\<lparr> ve_key = ''X_URL'', ve_message = ''Missing required environment variable: X_URL'',
        ve_value = None, ve_isWarning = False \<rparr>
       \<in> set (st_errors (projr (cleanEnv_collect ?spec ?on)))
     \<and> st_result (projr (cleanEnv_collect ?spec ?on)) ''X_URL'' = None"
    using on p_on v tier o(1-5) by simp
  ultimately show ?thesis
    using nl_off nl_on errs_off by simp
qed

text \<open>
  C9. With extra-key detection on (\<open>warnOnExtra\<close> or \<open>strict\<close>), a key of the raw source
  that is not a declared field gets exactly one diagnostic if it is neither in the
  allow-list (the caller's \<open>allowedExtra\<close> and the fixed names) nor prefixed \<open>npm_\<close>: a hard
  error under \<open>strict\<close>, a warning otherwise, and nothing in the other list. A key that is
  allowed gets no diagnostic at all.
\<close>

theorem extra_key_diagnostics:
  assumes "cleanEnv_collect spec options = Inr final"
    and "o_warnOnExtra options \<or> o_strict options"
    and "distinct (map fst (o_env options))"
    and "k \<in> fst ` set (o_env options)"
    and "k \<notin> fst ` set spec"
  shows "if k \<notin> allowedExtraSet (o_allowedExtra options) \<and> \<not> prefix ''npm_'' k
         then (if o_strict options
               then filter (\<lambda>e. ve_key e = k) (st_errors final) =
                      [\<lparr> ve_key = k, ve_message = ''Unknown environment variable'',
                         ve_value = None, ve_isWarning = False \<rparr>]
                  \<and> filter (\<lambda>e. ve_key e = k) (st_warnings final) = []
               else filter (\<lambda>e. ve_key e = k) (st_warnings final) =
                      [\<lparr> ve_key = k, ve_message = ''Unknown environment variable'',
                         ve_value = None, ve_isWarning = True \<rparr>]
                  \<and> filter (\<lambda>e. ve_key e = k) (st_errors final) = [])
         else filter (\<lambda>e. ve_key e = k) (st_errors final) = []
            \<and> filter (\<lambda>e. ve_key e = k) (st_warnings final) = []"
proof -
  let ?keys = "map fst (o_env options)"
  from assms(1,2) obtain stF where stF: "cleanEnv_fields (o_env options)
      \<lparr> st_errors = [], st_warnings = [], st_result = Map.empty \<rparr> spec = Inr stF"
    and final: "final = cleanEnv_extra (o_strict options) (set (map fst spec))
                   (allowedExtraSet (o_allowedExtra options)) stF ?keys"
    by (auto simp: cleanEnv_collect_def split: sum.splits)
  note none = cleanEnv_fields_no_foreign_key [OF stF assms(5)]
  have k: "k \<in> set ?keys" "k \<notin> set (map fst spec)" using assms(4,5) by auto
  show ?thesis
    unfolding final cleanEnv_extra_errors cleanEnv_extra_warnings
    using none k by (simp add: filter_key_of_extra [OF assms(3)])
qed

theorem extra_key_diagnostics_witness:
  "filter (\<lambda>e. ve_key e = ''MY_EXTRA'')
     (st_errors (projr (cleanEnv_collect (conditional_spec False) (extra_options True)))) =
     [\<lparr> ve_key = ''MY_EXTRA'', ve_message = ''Unknown environment variable'',
        ve_value = None, ve_isWarning = False \<rparr>]
   \<and> filter (\<lambda>e. ve_key e = ''MY_EXTRA'')
     (st_warnings (projr (cleanEnv_collect (conditional_spec False) (extra_options False)))) =
     [\<lparr> ve_key = ''MY_EXTRA'', ve_message = ''Unknown environment variable'',
        ve_value = None, ve_isWarning = True \<rparr>]
   \<and> filter (\<lambda>e. ve_key e = ''PATH'')
     (st_errors (projr (cleanEnv_collect (conditional_spec False) (extra_options True)))) = []
   \<and> filter (\<lambda>e. ve_key e = ''npm_config_cache'')
     (st_errors (projr (cleanEnv_collect (conditional_spec False) (extra_options True)))) = []
   \<and> filter (\<lambda>e. ve_key e = ''ALLOWED'')
     (st_errors (projr (cleanEnv_collect (conditional_spec False) (extra_options True)))) = []"
proof -
  let ?spec = "conditional_spec False"
  have final: "cleanEnv_collect ?spec (extra_options s) =
                 Inr (projr (cleanEnv_collect ?spec (extra_options s)))" for s
    by (cases s) (simp_all add: extra_defs)
  have on: "o_warnOnExtra (extra_options s) \<or> o_strict (extra_options s)" for s
    by (simp add: extra_options_def)
  have dist: "distinct (map fst (o_env (extra_options s)))" for s
    by (simp add: extra_defs)
  have keys: "''MY_EXTRA'' \<in> fst ` set (o_env (extra_options s))"
    "''PATH'' \<in> fst ` set (o_env (extra_options s))"
    "''npm_config_cache'' \<in> fst ` set (o_env (extra_options s))"
    "''ALLOWED'' \<in> fst ` set (o_env (extra_options s))" for s
    by (simp_all add: extra_defs)
  have undeclared: "''MY_EXTRA'' \<notin> fst ` set ?spec" "''PATH'' \<notin> fst ` set ?spec"
    "''npm_config_cache'' \<notin> fst ` set ?spec" "''ALLOWED'' \<notin> fst ` set ?spec"
    by (simp_all add: conditional_spec_def)
  have allowed: "''MY_EXTRA'' \<notin> allowedExtraSet (o_allowedExtra (extra_options s))"
    "''PATH'' \<in> allowedExtraSet (o_allowedExtra (extra_options s))"
    "''ALLOWED'' \<in> allowedExtraSet (o_allowedExtra (extra_options s))"
    "o_strict (extra_options s) = s" for s
    by (simp_all add: extra_defs)
  from extra_key_diagnostics [OF final on dist keys(1) undeclared(1), of True]
       extra_key_diagnostics [OF final on dist keys(1) undeclared(1), of False]
       extra_key_diagnostics [OF final on dist keys(2) undeclared(2), of True]
       extra_key_diagnostics [OF final on dist keys(3) undeclared(3), of True]
       extra_key_diagnostics [OF final on dist keys(4) undeclared(4), of True]
  show ?thesis
    by (simp add: allowed)
qed

section \<open>The result guard\<close>

text \<open>
  C6 (as amended). On every result \<open>cleanEnv\<close> returns, assigning, deleting or redefining
  any property throws. Reading a property named by a string that is neither a declared
  field, nor one of the three flags, nor a member the object inherits from
  \<open>Object.prototype\<close>, logs exactly one warning and yields \<open>undefined\<close>. Reading an
  inherited member logs nothing, and reading a property named by a symbol logs nothing
  and yields \<open>undefined\<close>.
\<close>

theorem result_guard:
  assumes "cleanEnv spec options = Inr px"
  shows "proxy_set px prop =
           Inl (Error (''Cannot modify environment variable: '' @ property_key_text prop))
       \<and> proxy_deleteProperty px prop =
           Inl (Error (''Cannot delete environment variable: '' @ property_key_text prop))
       \<and> proxy_defineProperty px prop =
           Inl (Error (''Cannot define environment variable: '' @ property_key_text prop))
       \<and> (name \<notin> fst ` set spec \<and> name \<notin> {''isProduction'', ''isDevelopment'', ''isTest''}
            \<and> name \<notin> set Object_prototype_keys \<longrightarrow>
          proxy_get px (PString name) console =
            (Undefined, console @ [''[envguard] Accessing undefined environment variable: '' @ name]))
       \<and> (inherited \<in> set Object_prototype_keys \<longrightarrow>
          snd (proxy_get px (PString inherited) console) = console)
       \<and> proxy_get px (PSymbol description) console = (Undefined, console)"
proof -
  from cleanEnv_returns [OF assms] obtain final where
    final: "cleanEnv_collect spec options = Inr final"
    and px: "px = createEnvProxy ((st_result final)
                 (''isProduction'' \<mapsto> Some (JBoolean (isProduction (o_env options))),
                  ''isDevelopment'' \<mapsto> Some (JBoolean (isDevelopment (o_env options))),
                  ''isTest'' \<mapsto> Some (JBoolean (isTest (o_env options))))) spec"
    by blast
  have read: "proxy_get px (PString name) console =
            (Undefined, console @ [''[envguard] Accessing undefined environment variable: '' @ name])"
    if "name \<notin> fst ` set spec" "name \<notin> {''isProduction'', ''isDevelopment'', ''isTest''}"
      "name \<notin> set Object_prototype_keys"
  proof -
    from cleanEnv_collect_dom [OF final] that(1) have "st_result final name = None" by auto
    with that show ?thesis
      unfolding px by (simp add: proxy_get_def createEnvProxy_def Reflect_get_def has_property_def)
  qed
  have member: "snd (proxy_get px (PString inherited) console) = console"
    if "inherited \<in> set Object_prototype_keys"
    using that by (simp add: proxy_get_def has_property_def)
  have symbol: "proxy_get px (PSymbol description) console = (Undefined, console)"
    by (simp add: proxy_get_def Reflect_get_def)
  show ?thesis
    using read member symbol
    by (simp add: proxy_set_def proxy_deleteProperty_def proxy_defineProperty_def)
qed

theorem result_guard_counterexample:
  "\<not> isl (cleanEnv (conditional_spec False) (quiet_options [(''USE_X'', Some ''false'')]))
   \<and> ''toString'' \<notin> fst ` set (conditional_spec False)
   \<and> proxy_get (projr (cleanEnv (conditional_spec False) (quiet_options [(''USE_X'', Some ''false'')])))
        (PString ''toString'') [] = (Inherited ''toString'', [])
   \<and> proxy_get (projr (cleanEnv (conditional_spec False) (quiet_options [(''USE_X'', Some ''false'')])))
        (PSymbol ''Symbol.toPrimitive'') [] = (Undefined, [])"
  by (simp add: guard_defs conditional_defs)

theorem result_guard_witness:
  "\<not> isl (cleanEnv (conditional_spec False) (quiet_options [(''USE_X'', Some ''false'')]))
   \<and> proxy_set (projr (cleanEnv (conditional_spec False) (quiet_options [(''USE_X'', Some ''false'')])))
        (PString ''USE_X'') = Inl (Error ''Cannot modify environment variable: USE_X'')
   \<and> proxy_get (projr (cleanEnv (conditional_spec False) (quiet_options [(''USE_X'', Some ''false'')])))
        (PString ''UNDEFINED_VAR'') [] =
        (Undefined, [''[envguard] Accessing undefined environment variable: UNDEFINED_VAR''])
   \<and> snd (proxy_get (projr (cleanEnv (conditional_spec False)
                               (quiet_options [(''USE_X'', Some ''false'')])))
        (PString ''valueOf'') []) = []
   \<and> proxy_get (projr (cleanEnv (conditional_spec False) (quiet_options [(''USE_X'', Some ''false'')])))
        (PSymbol ''Symbol.iterator'') [] = (Undefined, [])"
proof -
  let ?r = "cleanEnv (conditional_spec False) (quiet_options [(''USE_X'', Some ''false'')])"
  have nl: "\<not> isl ?r" by (simp add: guard_defs conditional_defs)
  then have r: "?r = Inr (projr ?r)" by (cases ?r) simp_all
  have name: "''UNDEFINED_VAR'' \<notin> fst ` set (conditional_spec False)"
    "''UNDEFINED_VAR'' \<notin> {''isProduction'', ''isDevelopment'', ''isTest''}"
    "''UNDEFINED_VAR'' \<notin> set Object_prototype_keys"
    "''valueOf'' \<in> set Object_prototype_keys"
    by (simp_all add: conditional_spec_def Object_prototype_keys_def)
  from result_guard [OF r, of "PString ''USE_X''" "''UNDEFINED_VAR''" "[]" "''valueOf''"
         "''Symbol.iterator''"] name nl
  show ?thesis by simp
qed

text \<open>
  C10 (as amended). A declared field whose \<open>parse\<close> threw an \<open>EnvError\<close> and which is not
  \<open>warnOnly\<close> was left unset by the pass. Reading it from the guarded result never logs
  the warning, and it yields \<open>undefined\<close> when the field's name is neither one of the
  three flags, which are written over the result, nor a member of \<open>Object.prototype\<close>.
\<close>

theorem failed_field_reads_undefined:
  assumes "spec = before @ (key, validator) # rest"
    and "distinct (map fst spec)"
    and "cleanEnv_fields (o_env options)
           \<lparr> st_errors = [], st_warnings = [], st_result = Map.empty \<rparr> before = Inr st"
    and "\<not> (requiredWhen (v_options validator) \<noteq> None
              \<and> \<not> the (requiredWhen (v_options validator)) (st_result st)
              \<and> (env_get (o_env options) key = None \<or> env_get (o_env options) key = Some ''''))"
    and "parse validator (env_get (o_env options) key) key (o_env options) = Inl error"
    and "is_EnvError error"
    and "\<not> warnOnly (v_options validator)"
    and "cleanEnv spec options = Inr px"
  shows "snd (proxy_get px (PString key) console) = console
       \<and> (key \<notin> {''isProduction'', ''isDevelopment'', ''isTest''}
            \<and> key \<notin> set Object_prototype_keys \<longrightarrow>
          proxy_get px (PString key) console = (Undefined, console))"
proof -
  from cleanEnv_returns [OF assms(8)] obtain final where
    final: "cleanEnv_collect spec options = Inr final"
    and px: "px = createEnvProxy ((st_result final)
                 (''isProduction'' \<mapsto> Some (JBoolean (isProduction (o_env options))),
                  ''isDevelopment'' \<mapsto> Some (JBoolean (isDevelopment (o_env options))),
                  ''isTest'' \<mapsto> Some (JBoolean (isTest (o_env options))))) spec"
    by blast
  from assms(1,2) have notin: "key \<notin> fst ` set before" by auto
  note st = cleanEnv_fields_before [OF assms(3) notin]
  from cleanEnv_collect_at_field [OF assms(1,2,3) final] obtain st1 where
    step: "cleanEnv_field (o_env options) st (key, validator) = Inr st1"
    and res: "st_result final key = st_result st1 key"
    by blast
  from cleanEnv_field_parse_error [OF assms(4,5,6) step] assms(7)
  have "st_result st1 = st_result st" by simp
  with res st(1) have unset: "st_result final key = None" by simp
  have declared: "key \<in> fst ` set spec" unfolding assms(1) by simp
  have silent: "snd (proxy_get px (PString key) console) = console"
    unfolding px using declared by (simp add: proxy_get_def createEnvProxy_def)
  have undefined: "proxy_get px (PString key) console = (Undefined, console)"
    if "key \<notin> {''isProduction'', ''isDevelopment'', ''isTest''}"
      "key \<notin> set Object_prototype_keys"
    unfolding px using unset declared that
    by (simp add: proxy_get_def createEnvProxy_def Reflect_get_def)
  show ?thesis using silent undefined by blast
qed

theorem failed_field_reads_undefined_counterexample:
  "\<not> isl (cleanEnv flag_named_spec (quiet_options []))
   \<and> st_errors (projr (cleanEnv_collect flag_named_spec (quiet_options []))) =
       [\<lparr> ve_key = ''isTest'', ve_message = ''Missing required environment variable: isTest'',
          ve_value = None, ve_isWarning = False \<rparr>]
   \<and> st_result (projr (cleanEnv_collect flag_named_spec (quiet_options []))) ''isTest'' = None
   \<and> proxy_get (projr (cleanEnv flag_named_spec (quiet_options []))) (PString ''isTest'') [] =
       (Value (JBoolean False), [])"
  by (simp add: flag_named_spec_def guard_defs example_defs)

theorem failed_field_reads_undefined_witness:
  "\<not> isl (cleanEnv secrets_spec (quiet_options secrets_env))
   \<and> st_errors (projr (cleanEnv_collect secrets_spec (quiet_options secrets_env))) \<noteq> []
   \<and> proxy_get (projr (cleanEnv secrets_spec (quiet_options secrets_env))) (PString ''API_KEY'') []
       = (Undefined, [])"
proof -
  let ?opts = "quiet_options secrets_env"
  let ?init = "\<lparr> st_errors = [], st_warnings = [], st_result = Map.empty \<rparr>"
  let ?v = "snd (secrets_spec ! 1)"
  let ?r = "cleanEnv secrets_spec ?opts"
  have nl: "\<not> isl ?r" by (simp add: guard_defs secrets_defs)
  then have r: "?r = Inr (projr ?r)" by (cases ?r) simp_all
  have errs: "st_errors (projr (cleanEnv_collect secrets_spec ?opts)) \<noteq> []"
    by (simp add: secrets_defs)
  have dist: "distinct (map fst secrets_spec)" by (simp add: secrets_spec_def)
  have split: "secrets_spec = [secrets_spec ! 0] @ (''API_KEY'', ?v) # []"
    by (simp add: secrets_spec_def)
  have before: "cleanEnv_fields (o_env ?opts) ?init [secrets_spec ! 0] =
              Inr (projr (cleanEnv_fields (o_env ?opts) ?init [secrets_spec ! 0]))"
    by (simp add: secrets_defs)
  have called: "\<not> (requiredWhen (v_options ?v) \<noteq> None
              \<and> \<not> the (requiredWhen (v_options ?v))
                    (st_result (projr (cleanEnv_fields (o_env ?opts) ?init [secrets_spec ! 0])))
              \<and> (env_get (o_env ?opts) ''API_KEY'' = None \<or> env_get (o_env ?opts) ''API_KEY'' = Some ''''))"
    by (simp add: secrets_defs)
  have fails: "parse ?v (env_get (o_env ?opts) ''API_KEY'') ''API_KEY'' (o_env ?opts)
              = Inl (EnvValidationError ''API_KEY'' ''must be one of: a, b'' (Some ''supersecretvalue''))"
    by (simp add: secrets_defs)
  have typed: "is_EnvError (EnvValidationError ''API_KEY'' ''must be one of: a, b'' (Some ''supersecretvalue''))"
    by simp
  have hard: "\<not> warnOnly (v_options ?v)" by (simp add: secrets_defs)
  have name: "''API_KEY'' \<notin> {''isProduction'', ''isDevelopment'', ''isTest''}"
    "''API_KEY'' \<notin> set Object_prototype_keys"
    by (simp_all add: Object_prototype_keys_def)
  from failed_field_reads_undefined [OF split dist before called fails typed hard r, of "[]"]
  show ?thesis using nl errs name by simp
qed

section \<open>The catalogue and \<open>choices\<close>\<close>

text \<open>
  The validators that read \<open>choices\<close> and test the value they are about to return: a value
  they return is one of the choices.
\<close>

lemma str_result_in_choices:
  assumes "choices options = Some cs" and "value \<noteq> []"
    and "parse (str options) (Some value) key env = Inr v"
  shows "v \<in> set cs"
  using assms by (auto simp: str_def createValidator_def Let_def split: if_splits)

lemma regex_result_in_choices:
  assumes "choices options = Some cs" and "value \<noteq> []"
    and "parse (regex options) (Some value) key env = Inr v"
  shows "v \<in> set cs"
  using assms by (auto simp: regex_def createValidator_def split: if_splits)

lemma duration_result_in_choices:
  assumes "choices options = Some cs" and "value \<noteq> []"
    and "parse (duration show options) (Some value) key env = Inr v"
  shows "v \<in> set cs"
  using assms
  by (auto simp: duration_def createValidator_def Let_def split: if_splits option.splits prod.splits)

lemma bytes_result_in_choices:
  assumes "choices options = Some cs" and "value \<noteq> []"
    and "parse (bytes show options) (Some value) key env = Inr v"
  shows "v \<in> set cs"
  using assms
  by (auto simp: bytes_def createValidator_def Let_def split: if_splits option.splits prod.splits)

lemma makeValidator_result_in_choices:
  assumes "choices options = Some cs" and "value \<noteq> []"
    and "parse (makeValidator show parser ty options) (Some value) key env = Inr v"
  shows "v \<in> set cs"
  using assms
  by (auto simp: makeValidator_def createValidator_def split: if_splits sum.splits)

text \<open>
  C1. The claim is that every validator of the catalogue, given \<open>choices\<close>, fails with
  \<open>must be one of\<close> when the parsed value is not a choice. \<open>bool\<close> and \<open>enumValidator\<close> do
  not read \<open>choices\<close>: \<open>bool\<close> with the only choice \<open>false\<close> parses \<open>true\<close> to \<open>true\<close>, and an
  enumeration of \<open>a\<close> and \<open>b\<close> with the only choice \<open>a\<close> parses \<open>b\<close> to \<open>b\<close>.
\<close>

theorem choices_ignored:
  "parse (bool (no_options\<lparr>choices := Some [False]\<rparr>)) (Some ''true'') key env = Inr True
   \<and> parse (enumValidator (validator_options.extend (no_options\<lparr>choices := Some [''a'']\<rparr>)
              \<lparr>enum_values = [''a'', ''b'']\<rparr>)) (Some ''b'') key env = Inr ''b''"
  by (simp add: bool_def enumValidator_def createValidator_def no_options_def
      validator_options.extend_def String_toLowerCase_def toLowerCase_char_def trueValues_def)

text \<open>
  C2. The claim is that \<open>choices\<close> is tested on the value after transformation, so that
  \<open>uuid\<close> accepts a mixed-case input whose lower-case form is a choice. \<open>uuid\<close> tests the raw
  text and lower-cases afterwards: the upper-case spelling of the only choice is
  rejected, although without \<open>choices\<close> it parses to that very choice. \<open>str\<close> tests the
  transformed text.
\<close>

theorem uuid_choices_checked_on_raw_value:
  "parse (uuid (no_options\<lparr>choices := Some [''550e8400-e29b-41d4-a716-446655440000'']\<rparr>))
     (Some ''550E8400-E29B-41D4-A716-446655440000'') key env =
     Inl (EnvValidationError key ''must be one of: 550e8400-e29b-41d4-a716-446655440000''
            (Some ''550E8400-E29B-41D4-A716-446655440000''))
   \<and> parse (uuid no_options) (Some ''550E8400-E29B-41D4-A716-446655440000'') key env =
       Inr ''550e8400-e29b-41d4-a716-446655440000''
   \<and> parse (str ((str_options (no_options\<lparr>choices := Some [''abc'']\<rparr>))\<lparr>toLowerCase := True\<rparr>))
       (Some ''ABC'') key env = Inr ''abc''"
  by (simp add: uuid_def str_def str_options_def createValidator_def no_options_def
      validator_options.extend_def UUID_REGEX_test_def UUID_REGEX_def hex_class_def
      numeral_eq_Suc String_toLowerCase_def toLowerCase_char_def)

end
